theory Spec2Isabelle
  imports Complex_Main
begin

section \<open>JavaScript numbers\<close>

text \<open>
  A JavaScript \<open>number\<close> is modelled as an exact real extended with the three special
  values of IEEE arithmetic: \<open>Infinity\<close>, \<open>-Infinity\<close> and \<open>NaN\<close>. Rounding, overflow
  of finite results and the sign of zero are not modelled; division by zero, arithmetic
  on the special values and comparisons with \<open>NaN\<close> are written out as JavaScript
  evaluates them. The section on double arithmetic below puts the rounding and the
  overflow back, for the tower scan and for the rocket and interceptor loops.
\<close>

datatype number = Num real | PosInf | NegInf | NaN

fun is_num :: "number \<Rightarrow> bool" where
  "is_num (Num a) = True"
| "is_num PosInf = False"
| "is_num NegInf = False"
| "is_num NaN = False"

fun nneg :: "number \<Rightarrow> number" where
  "nneg (Num a) = Num (- a)"
| "nneg PosInf = NegInf"
| "nneg NegInf = PosInf"
| "nneg NaN = NaN"

fun nadd :: "number \<Rightarrow> number \<Rightarrow> number" where
  "nadd (Num a) (Num b) = Num (a + b)"
| "nadd (Num a) PosInf = PosInf"
| "nadd (Num a) NegInf = NegInf"
| "nadd PosInf (Num b) = PosInf"
| "nadd PosInf PosInf = PosInf"
| "nadd PosInf NegInf = NaN"
| "nadd NegInf (Num b) = NegInf"
| "nadd NegInf NegInf = NegInf"
| "nadd NegInf PosInf = NaN"
| "nadd NaN b = NaN"
| "nadd a NaN = NaN"

definition nsub :: "number \<Rightarrow> number \<Rightarrow> number" where
  "nsub a b = nadd a (nneg b)"

fun nmul :: "number \<Rightarrow> number \<Rightarrow> number" where
  "nmul (Num a) (Num b) = Num (a * b)"
| "nmul (Num a) PosInf = (if a = 0 then NaN else if 0 < a then PosInf else NegInf)"
| "nmul (Num a) NegInf = (if a = 0 then NaN else if 0 < a then NegInf else PosInf)"
| "nmul PosInf (Num b) = (if b = 0 then NaN else if 0 < b then PosInf else NegInf)"
| "nmul NegInf (Num b) = (if b = 0 then NaN else if 0 < b then NegInf else PosInf)"
| "nmul PosInf PosInf = PosInf"
| "nmul PosInf NegInf = NegInf"
| "nmul NegInf PosInf = NegInf"
| "nmul NegInf NegInf = PosInf"
| "nmul NaN b = NaN"
| "nmul a NaN = NaN"

fun ndiv :: "number \<Rightarrow> number \<Rightarrow> number" where
  "ndiv (Num a) (Num b) =
     (if b = 0 then (if a = 0 then NaN else if 0 < a then PosInf else NegInf)
      else Num (a / b))"
| "ndiv (Num a) PosInf = Num 0"
| "ndiv (Num a) NegInf = Num 0"
| "ndiv PosInf (Num b) = (if 0 \<le> b then PosInf else NegInf)"
| "ndiv NegInf (Num b) = (if 0 \<le> b then NegInf else PosInf)"
| "ndiv PosInf PosInf = NaN"
| "ndiv PosInf NegInf = NaN"
| "ndiv NegInf PosInf = NaN"
| "ndiv NegInf NegInf = NaN"
| "ndiv NaN b = NaN"
| "ndiv a NaN = NaN"

text \<open>The comparisons \<open><\<close> and \<open><=\<close>; every comparison with \<open>NaN\<close> is false.\<close>

fun nlt :: "number \<Rightarrow> number \<Rightarrow> bool" where
  "nlt (Num a) (Num b) = (a < b)"
| "nlt (Num a) PosInf = True"
| "nlt (Num a) NegInf = False"
| "nlt PosInf b = False"
| "nlt NegInf (Num b) = True"
| "nlt NegInf PosInf = True"
| "nlt NegInf NegInf = False"
| "nlt NegInf NaN = False"
| "nlt NaN b = False"
| "nlt (Num a) NaN = False"

fun nle :: "number \<Rightarrow> number \<Rightarrow> bool" where
  "nle (Num a) (Num b) = (a \<le> b)"
| "nle (Num a) PosInf = True"
| "nle (Num a) NegInf = False"
| "nle PosInf PosInf = True"
| "nle PosInf (Num b) = False"
| "nle PosInf NegInf = False"
| "nle PosInf NaN = False"
| "nle NegInf (Num b) = True"
| "nle NegInf PosInf = True"
| "nle NegInf NegInf = True"
| "nle NegInf NaN = False"
| "nle NaN b = False"
| "nle (Num a) NaN = False"

text \<open>\<open>a > b\<close> and \<open>a >= b\<close>.\<close>

definition ngt :: "number \<Rightarrow> number \<Rightarrow> bool" where
  "ngt a b = nlt b a"

definition nge :: "number \<Rightarrow> number \<Rightarrow> bool" where
  "nge a b = nle b a"

text \<open>\<open>Math.sqrt\<close>, \<open>Math.abs\<close>, \<open>Math.pow(v, 2)\<close>, \<open>Math.max\<close> of two arguments.\<close>

fun Math_sqrt :: "number \<Rightarrow> number" where
  "Math_sqrt (Num a) = (if a < 0 then NaN else Num (sqrt a))"
| "Math_sqrt PosInf = PosInf"
| "Math_sqrt NegInf = NaN"
| "Math_sqrt NaN = NaN"

fun Math_abs :: "number \<Rightarrow> number" where
  "Math_abs (Num a) = Num \<bar>a\<bar>"
| "Math_abs PosInf = PosInf"
| "Math_abs NegInf = PosInf"
| "Math_abs NaN = NaN"

fun Math_pow2 :: "number \<Rightarrow> number" where
  "Math_pow2 (Num a) = Num (a\<^sup>2)"
| "Math_pow2 PosInf = PosInf"
| "Math_pow2 NegInf = PosInf"
| "Math_pow2 NaN = NaN"

fun Math_max :: "number \<Rightarrow> number \<Rightarrow> number" where
  "Math_max NaN b = NaN"
| "Math_max a NaN = NaN"
| "Math_max a b = (if nlt a b then b else a)"

section \<open>Data model (types.ts)\<close>

text \<open>
  Field names of Isabelle records are global, so the fields that several interfaces of
  \<open>types.ts\<close> declare under one name are declared once, in a common parent record:
  \<open>Entity\<close> as in the source, \<open>Projectile\<close> for the four fields \<open>Rocket\<close> and
  \<open>Interceptor\<close> share, and \<open>Tower\<close> extends \<open>City\<close>, whose only own field is
  \<open>isDestroyed\<close>.

  An id is either a string literal of the source or \<open>Math.random().toString()\<close>, kept
  as the number drawn.
\<close>

datatype ident = Name string | RandomId real

record Entity =
  id :: ident
  x :: number
  y :: number

record Projectile = Entity +
  targetX :: number
  targetY :: number
  speed :: number
  progress :: number

type_synonym Rocket = Projectile

record Interceptor = Projectile +
  startX :: number
  startY :: number

record Explosion = Entity +
  radius :: number
  maxRadius :: number
  growthRate :: number
  isExpanding :: bool

record City = Entity +
  isDestroyed :: bool

text \<open>\<open>ammo\<close> starts at 40 or 80 and only ever changes by \<open>ammo -= 1\<close>: an integer.\<close>

record Tower = City +
  ammo :: int
  maxAmmo :: int

datatype GameState = START | PLAYING | WON | LOST

definition GAME_WIDTH :: real where "GAME_WIDTH = 800"
definition GAME_HEIGHT :: real where "GAME_HEIGHT = 600"
definition WIN_SCORE :: int where "WIN_SCORE = 1000"
definition POINTS_PER_KILL :: int where "POINTS_PER_KILL = 20"

section \<open>The component state (App.tsx)\<close>

text \<open>
  \<open>gameState\<close> and \<open>score\<close> are React state, the entity arrays and \<open>spawnTimer\<close> are
  refs. \<open>score\<close> starts at 0 and only changes by \<open>prev + POINTS_PER_KILL\<close>: an integer.
  \<open>Math.random()\<close> is the fractional part of the next element of an arbitrary sequence
  \<open>rng\<close>, so it lies in [0, 1); \<open>randoms\<close> counts the draws made so far.
\<close>

record game =
  gameState :: GameState
  score :: int
  rockets :: "Rocket list"
  interceptors :: "Interceptor list"
  explosions :: "Explosion list"
  towers :: "Tower list"
  cities :: "City list"
  spawnTimer :: number
  randoms :: nat

definition Math_random :: "(nat \<Rightarrow> real) \<Rightarrow> game \<Rightarrow> real \<times> game" where
  "Math_random rng st = (frac (rng (randoms st)), st\<lparr>randoms := Suc (randoms st)\<rparr>)"

definition INITIAL_TOWERS :: "Tower list" where
  "INITIAL_TOWERS =
    [\<lparr>id = Name ''tower-0'', x = Num 50, y = Num (GAME_HEIGHT - 40), isDestroyed = False,
      ammo = 40, maxAmmo = 40\<rparr>,
     \<lparr>id = Name ''tower-1'', x = Num (GAME_WIDTH / 2), y = Num (GAME_HEIGHT - 40),
      isDestroyed = False, ammo = 80, maxAmmo = 80\<rparr>,
     \<lparr>id = Name ''tower-2'', x = Num (GAME_WIDTH - 50), y = Num (GAME_HEIGHT - 40),
      isDestroyed = False, ammo = 40, maxAmmo = 40\<rparr>]"

definition INITIAL_CITIES :: "City list" where
  "INITIAL_CITIES =
    [\<lparr>id = Name ''city-0'', x = Num 150, y = Num (GAME_HEIGHT - 30), isDestroyed = False\<rparr>,
     \<lparr>id = Name ''city-1'', x = Num 250, y = Num (GAME_HEIGHT - 30), isDestroyed = False\<rparr>,
     \<lparr>id = Name ''city-2'', x = Num 350, y = Num (GAME_HEIGHT - 30), isDestroyed = False\<rparr>,
     \<lparr>id = Name ''city-3'', x = Num 450, y = Num (GAME_HEIGHT - 30), isDestroyed = False\<rparr>,
     \<lparr>id = Name ''city-4'', x = Num 550, y = Num (GAME_HEIGHT - 30), isDestroyed = False\<rparr>,
     \<lparr>id = Name ''city-5'', x = Num 650, y = Num (GAME_HEIGHT - 30), isDestroyed = False\<rparr>]"

text \<open>The state of the first render, and \<open>resetGame\<close>.\<close>

definition initial_game :: game where
  "initial_game =
    \<lparr>gameState = START, score = 0, rockets = [], interceptors = [], explosions = [],
     towers = INITIAL_TOWERS, cities = INITIAL_CITIES, spawnTimer = Num 0, randoms = 0\<rparr>"

definition resetGame :: "game \<Rightarrow> game" where
  "resetGame st =
    st\<lparr>rockets := [], interceptors := [], explosions := [], towers := INITIAL_TOWERS,
       cities := INITIAL_CITIES, score := 0, gameState := PLAYING\<rparr>"

section \<open>fireInterceptor\<close>

text \<open>The \<open>dist\<close> of the scan: the Euclidean distance from a tower to the target point.\<close>

definition tower_dist :: "number \<Rightarrow> number \<Rightarrow> Tower \<Rightarrow> number" where
  "tower_dist tX tY tower =
     Math_sqrt (nadd (Math_pow2 (nsub (x tower) tX)) (Math_pow2 (nsub (y tower) tY)))"

definition eligible :: "Tower \<Rightarrow> bool" where
  "eligible tower = (0 < ammo tower \<and> \<not> isDestroyed tower)"

text \<open>
  One call of the \<open>forEach\<close> callback. The accumulator is the pair of the locals
  \<open>bestTower\<close> and \<open>minDist\<close>; \<open>bestTower\<close> is a reference to an element of the towers
  array, kept as its index (\<open>None\<close> is \<open>null\<close>).
\<close>

definition scan_tower :: "number \<Rightarrow> number \<Rightarrow> nat option \<times> number \<Rightarrow> nat \<times> Tower
    \<Rightarrow> nat option \<times> number" where
  "scan_tower tX tY acc it =
     (if 0 < ammo (snd it) \<and> \<not> isDestroyed (snd it) then
        (let dist = tower_dist tX tY (snd it)
         in if nlt dist (snd acc) then (Some (fst it), dist) else acc)
      else acc)"

definition find_best :: "number \<Rightarrow> number \<Rightarrow> Tower list \<Rightarrow> nat option \<times> number" where
  "find_best tX tY ts = foldl (scan_tower tX tY) (None, PosInf) (enumerate 0 ts)"

definition fireInterceptor :: "(nat \<Rightarrow> real) \<Rightarrow> number \<Rightarrow> number \<Rightarrow> game \<Rightarrow> game" where
  "fireInterceptor rng tX tY st =
     (if gameState st \<noteq> PLAYING then st
      else case fst (find_best tX tY (towers st)) of
        None \<Rightarrow> st
      | Some i \<Rightarrow>
          (let bestTower = towers st ! i;
               st1 = st\<lparr>towers := (towers st)[i := bestTower\<lparr>ammo := ammo bestTower - 1\<rparr>]\<rparr>;
               (r, st2) = Math_random rng st1
           in st2\<lparr>interceptors := interceptors st2 @
                [\<lparr>id = RandomId r, x = x bestTower, y = y bestTower,
                  targetX = tX, targetY = tY, speed = Num 10, progress = Num 0,
                  startX = x bestTower, startY = y bestTower\<rparr>]\<rparr>))"

section \<open>update\<close>

text \<open>
  \<open>Array.prototype.forEach\<close> on an array that its callback may shorten. The length is
  read once, before the first call; index \<open>k\<close> is visited only if it is still an index
  of the array when its turn comes (the arrays are dense, so \<open>k in O\<close> is
  \<open>k < O.length\<close>). \<open>len\<close> reads the current length of the array out of the state,
  \<open>f k\<close> is the callback at index \<open>k\<close>; the element is read by the callback
  itself, at index \<open>k\<close> of the array as it is at that moment.
\<close>

fun forEach_from :: "('s \<Rightarrow> nat) \<Rightarrow> (nat \<Rightarrow> 's \<Rightarrow> 's) \<Rightarrow> nat \<Rightarrow> nat \<Rightarrow> 's \<Rightarrow> 's" where
  "forEach_from len f 0 k st = st"
| "forEach_from len f (Suc n) k st =
     forEach_from len f n (Suc k) (if k < len st then f k st else st)"

definition forEach :: "('s \<Rightarrow> nat) \<Rightarrow> (nat \<Rightarrow> 's \<Rightarrow> 's) \<Rightarrow> 's \<Rightarrow> 's" where
  "forEach len f st = forEach_from len f (len st) 0 st"

text \<open>\<open>array.splice(index, 1)\<close>.\<close>

definition splice1 :: "nat \<Rightarrow> 'a list \<Rightarrow> 'a list" where
  "splice1 index xs = take index xs @ drop (Suc index) xs"

subsection \<open>Spawn rockets\<close>

text \<open>
  \<open>score\<close> inside \<open>update\<close> is the constant of the render that created the closure;
  the effect that runs the frame loop depends on \<open>[gameState, score, draw]\<close>, so at
  the start of a pass it is the score of the state. It is passed on as \<open>sc\<close>.
\<close>

definition spawn_rockets :: "(nat \<Rightarrow> real) \<Rightarrow> int \<Rightarrow> number \<Rightarrow> game \<Rightarrow> game" where
  "spawn_rockets rng sc deltaTime st =
     (let st1 = st\<lparr>spawnTimer := nadd (spawnTimer st) deltaTime\<rparr>;
          spawnRate = Math_max (Num 500)
            (nsub (Num 2000) (nmul (ndiv (Num (of_int sc)) (Num 100)) (Num 100)))
      in if ngt (spawnTimer st1) spawnRate then
           (let st2 = st1\<lparr>spawnTimer := Num 0\<rparr>;
                targets = filter (\<lambda>c. \<not> isDestroyed c) (cities st2) @
                          map City.truncate (filter (\<lambda>t. \<not> isDestroyed t) (towers st2))
            in if 0 < length targets then
                 (let (r1, st3) = Math_random rng st2;
                      target = targets ! nat \<lfloor>r1 * real (length targets)\<rfloor>;
                      (r2, st4) = Math_random rng st3;
                      (r3, st5) = Math_random rng st4;
                      (r4, st6) = Math_random rng st5
                  in st6\<lparr>rockets := rockets st6 @
                       [\<lparr>id = RandomId r2, x = Num (r3 * GAME_WIDTH), y = Num 0,
                         targetX = x target, targetY = y target,
                         speed = nadd (nadd (Num 0.5) (nmul (Num r4) (Num 0.5)))
                                   (ndiv (Num (of_int sc)) (Num 2000)),
                         progress = Num 0\<rparr>]\<rparr>)
               else st2)
         else st1)"

subsection \<open>Update rockets\<close>

text \<open>The three assignments that move a rocket.\<close>

definition rocket_advance :: "Rocket \<Rightarrow> Rocket" where
  "rocket_advance rocket =
     (let r1 = rocket\<lparr>progress := nadd (progress rocket) (ndiv (speed rocket) (Num 100))\<rparr>;
          r2 = r1\<lparr>x := nadd (x r1)
                 (ndiv (nmul (nsub (targetX r1) (x r1)) (ndiv (speed r1) (Num 100)))
                       (nadd (nsub (Num 1) (progress r1)) (Num 0.01)))\<rparr>;
          r3 = r2\<lparr>y := nadd (y r2)
                 (ndiv (nmul (nsub (targetY r2) (y r2)) (ndiv (speed r2) (Num 100)))
                       (nadd (nsub (Num 1) (progress r2)) (Num 0.01)))\<rparr>
      in r3)"

text \<open>
  The body of the two damage loops, which is the same for cities and towers. These
  loops do not change the length of their array.
\<close>

definition damage :: "number \<Rightarrow> number \<Rightarrow> 'a City_scheme \<Rightarrow> 'a City_scheme" where
  "damage tX tY c =
     (if nlt (Math_abs (nsub (x c) tX)) (Num 10) \<and> nlt (Math_abs (nsub (y c) tY)) (Num 10)
      then c\<lparr>isDestroyed := True\<rparr> else c)"

definition rocket_callback :: "(nat \<Rightarrow> real) \<Rightarrow> nat \<Rightarrow> game \<Rightarrow> game" where
  "rocket_callback rng index st =
     (let rocket = rocket_advance (rockets st ! index);
          st1 = st\<lparr>rockets := (rockets st)[index := rocket]\<rparr>
      in if nge (y rocket) (targetY rocket) then
           (let (r, st2) = Math_random rng st1;
                st3 = st2\<lparr>explosions := explosions st2 @
                        [\<lparr>id = RandomId r, x = targetX rocket, y = targetY rocket,
                          radius = Num 0, maxRadius = Num 40, growthRate = Num 2,
                          isExpanding = True\<rparr>]\<rparr>;
                st4 = st3\<lparr>cities := map (damage (targetX rocket) (targetY rocket)) (cities st3)\<rparr>;
                st5 = st4\<lparr>towers := map (damage (targetX rocket) (targetY rocket)) (towers st4)\<rparr>
            in st5\<lparr>rockets := splice1 index (rockets st5)\<rparr>)
         else st1)"

definition update_rockets :: "(nat \<Rightarrow> real) \<Rightarrow> game \<Rightarrow> game" where
  "update_rockets rng st = forEach (\<lambda>s. length (rockets s)) (rocket_callback rng) st"

subsection \<open>Update interceptors\<close>

text \<open>The source's \<open>inter\<close> is \<open>icp\<close> here (\<open>inter\<close> is set intersection in HOL).\<close>

definition interceptor_advance :: "Interceptor \<Rightarrow> Interceptor" where
  "interceptor_advance icp =
     (let dx = nsub (targetX icp) (startX icp);
          dy = nsub (targetY icp) (startY icp);
          dist = Math_sqrt (nadd (nmul dx dx) (nmul dy dy));
          i1 = icp\<lparr>progress := nadd (progress icp) (ndiv (speed icp) dist)\<rparr>;
          i2 = i1\<lparr>x := nadd (startX i1) (nmul dx (progress i1))\<rparr>;
          i3 = i2\<lparr>y := nadd (startY i2) (nmul dy (progress i2))\<rparr>
      in i3)"

definition interceptor_callback :: "(nat \<Rightarrow> real) \<Rightarrow> nat \<Rightarrow> game \<Rightarrow> game" where
  "interceptor_callback rng index st =
     (let icp = interceptor_advance (interceptors st ! index);
          st1 = st\<lparr>interceptors := (interceptors st)[index := icp]\<rparr>
      in if nge (progress icp) (Num 1) then
           (let (r, st2) = Math_random rng st1;
                st3 = st2\<lparr>explosions := explosions st2 @
                        [\<lparr>id = RandomId r, x = targetX icp, y = targetY icp,
                          radius = Num 0, maxRadius = Num 50, growthRate = Num 1.5,
                          isExpanding = True\<rparr>]\<rparr>
            in st3\<lparr>interceptors := splice1 index (interceptors st3)\<rparr>)
         else st1)"

definition update_interceptors :: "(nat \<Rightarrow> real) \<Rightarrow> game \<Rightarrow> game" where
  "update_interceptors rng st =
     forEach (\<lambda>s. length (interceptors s)) (interceptor_callback rng) st"

subsection \<open>Update explosions\<close>

text \<open>The source's \<open>exp\<close> is \<open>expl\<close> here (\<open>exp\<close> is the exponential function in HOL).\<close>

text \<open>
  The first half of the callback: the explosion after its radius update, and whether
  the callback splices it out of the array.
\<close>

definition explosion_advance :: "Explosion \<Rightarrow> Explosion \<times> bool" where
  "explosion_advance expl =
     (if isExpanding expl then
        (let e1 = expl\<lparr>radius := nadd (radius expl) (growthRate expl)\<rparr>
         in (if nge (radius e1) (maxRadius e1) then e1\<lparr>isExpanding := False\<rparr> else e1, False))
      else
        (let e1 = expl\<lparr>radius := nsub (radius expl) (nmul (growthRate expl) (Num 0.5))\<rparr>
         in (e1, nle (radius e1) (Num 0))))"

text \<open>
  The callback of the inner loop over the rockets. \<open>setScore(prev => prev + POINTS_PER_KILL)\<close>
  changes the React state, kept in the field \<open>score\<close>; the constant \<open>score\<close> of the
  running closure does not change.
\<close>

definition collide :: "Explosion \<Rightarrow> nat \<Rightarrow> game \<Rightarrow> game" where
  "collide expl rIndex st =
     (let rocket = rockets st ! rIndex;
          dist = Math_sqrt (nadd (Math_pow2 (nsub (x rocket) (x expl)))
                                 (Math_pow2 (nsub (y rocket) (y expl))))
      in if nlt dist (radius expl) then
           st\<lparr>rockets := splice1 rIndex (rockets st), score := score st + POINTS_PER_KILL\<rparr>
         else st)"

definition explosion_callback :: "nat \<Rightarrow> game \<Rightarrow> game" where
  "explosion_callback index st =
     (let (expl, gone) = explosion_advance (explosions st ! index);
          st1 = st\<lparr>explosions := (explosions st)[index := expl]\<rparr>;
          st2 = (if gone then st1\<lparr>explosions := splice1 index (explosions st1)\<rparr> else st1)
      in forEach (\<lambda>s. length (rockets s)) (collide expl) st2)"

definition update_explosions :: "game \<Rightarrow> game" where
  "update_explosions st = forEach (\<lambda>s. length (explosions s)) explosion_callback st"

subsection \<open>Check win/loss\<close>

text \<open>
  Two independent \<open>if\<close> statements, each calling \<open>setGameState\<close>; the state after the
  pass is the one set last. The first compares the closure's constant \<open>sc\<close>.
\<close>

definition check_win_loss :: "int \<Rightarrow> game \<Rightarrow> game" where
  "check_win_loss sc st =
     (let st1 = (if WIN_SCORE \<le> sc then st\<lparr>gameState := WON\<rparr> else st);
          st2 = (if list_all isDestroyed (towers st1) then st1\<lparr>gameState := LOST\<rparr> else st1)
      in st2)"

text \<open>
  The entity part of a pass (spawn and the three loops), and the pass. \<open>gameState\<close>, like
  \<open>score\<close>, is the constant of the closure, equal to the state's at the start of a pass.
\<close>

definition update_entities :: "(nat \<Rightarrow> real) \<Rightarrow> number \<Rightarrow> game \<Rightarrow> game" where
  "update_entities rng deltaTime st =
     update_explosions (update_interceptors rng (update_rockets rng
       (spawn_rockets rng (score st) deltaTime st)))"

definition update :: "(nat \<Rightarrow> real) \<Rightarrow> number \<Rightarrow> game \<Rightarrow> game" where
  "update rng deltaTime st =
     (if gameState st \<noteq> PLAYING then st
      else check_win_loss (score st) (update_entities rng deltaTime st))"

section \<open>Double arithmetic\<close>

text \<open>
  The code computes in IEEE doubles: the result of \<open>+\<close>, \<open>-\<close>, \<open>*\<close>, \<open>/\<close> and
  \<open>Math.sqrt\<close> on finite operands is the exact result rounded, and it is an infinity
  when the exact result overflows. The definitions above leave the rounding out. The
  definitions of this section keep it, as a parameter \<open>fl\<close> that takes the exact result
  of one operation to the double the operation returns; \<open>fl = Num\<close> is the arithmetic
  without rounding. Operations on \<open>Infinity\<close>, \<open>-Infinity\<close> and \<open>NaN\<close>, the division
  by zero, the negation, \<open>Math.abs\<close> and the comparisons do not round. A decimal
  literal that is not a double, such as \<open>0.01\<close>, is rounded too (\<open>fl 0.01\<close>); the
  literals 1, 2, 10, 40, 50, 100 and 1.5 are doubles.
\<close>

fun fadd :: "(real \<Rightarrow> number) \<Rightarrow> number \<Rightarrow> number \<Rightarrow> number" where
  "fadd fl (Num a) (Num b) = fl (a + b)"
| "fadd fl a b = nadd a b"

definition fsub :: "(real \<Rightarrow> number) \<Rightarrow> number \<Rightarrow> number \<Rightarrow> number" where
  "fsub fl a b = fadd fl a (nneg b)"

fun fmul :: "(real \<Rightarrow> number) \<Rightarrow> number \<Rightarrow> number \<Rightarrow> number" where
  "fmul fl (Num a) (Num b) = fl (a * b)"
| "fmul fl a b = nmul a b"

fun fdiv :: "(real \<Rightarrow> number) \<Rightarrow> number \<Rightarrow> number \<Rightarrow> number" where
  "fdiv fl (Num a) (Num b) =
     (if b = 0 then (if a = 0 then NaN else if 0 < a then PosInf else NegInf)
      else fl (a / b))"
| "fdiv fl a b = ndiv a b"

fun fsqrt :: "(real \<Rightarrow> number) \<Rightarrow> number \<Rightarrow> number" where
  "fsqrt fl (Num a) = (if a < 0 then NaN else fl (sqrt a))"
| "fsqrt fl a = Math_sqrt a"

subsection \<open>fireInterceptor, for any computed distance\<close>

text \<open>
  \<open>fireInterceptor\<close> with the value of the expression
  \<open>Math.sqrt(Math.pow(tower.x - targetX, 2) + Math.pow(tower.y - targetY, 2))\<close> as a
  parameter: \<open>dist_of targetX targetY tower\<close> is the number that the code computes for
  it, whatever the rounding of \<open>Math.pow\<close> and of the other operations. With
  \<open>tower_dist\<close> for \<open>dist_of\<close> it is \<open>fireInterceptor\<close> as defined above.
\<close>

definition scan_tower_with :: "(Tower \<Rightarrow> number) \<Rightarrow> nat option \<times> number \<Rightarrow> nat \<times> Tower
    \<Rightarrow> nat option \<times> number" where
  "scan_tower_with dist_of acc it =
     (if 0 < ammo (snd it) \<and> \<not> isDestroyed (snd it) then
        (let dist = dist_of (snd it)
         in if nlt dist (snd acc) then (Some (fst it), dist) else acc)
      else acc)"

definition find_best_with :: "(Tower \<Rightarrow> number) \<Rightarrow> Tower list \<Rightarrow> nat option \<times> number" where
  "find_best_with dist_of ts = foldl (scan_tower_with dist_of) (None, PosInf) (enumerate 0 ts)"

definition fireInterceptor_with ::
    "(number \<Rightarrow> number \<Rightarrow> Tower \<Rightarrow> number) \<Rightarrow> (nat \<Rightarrow> real) \<Rightarrow> number \<Rightarrow> number \<Rightarrow> game \<Rightarrow> game" where
  "fireInterceptor_with dist_of rng tX tY st =
     (if gameState st \<noteq> PLAYING then st
      else case fst (find_best_with (dist_of tX tY) (towers st)) of
        None \<Rightarrow> st
      | Some i \<Rightarrow>
          (let bestTower = towers st ! i;
               st1 = st\<lparr>towers := (towers st)[i := bestTower\<lparr>ammo := ammo bestTower - 1\<rparr>]\<rparr>;
               (r, st2) = Math_random rng st1
           in st2\<lparr>interceptors := interceptors st2 @
                [\<lparr>id = RandomId r, x = x bestTower, y = y bestTower,
                  targetX = tX, targetY = tY, speed = Num 10, progress = Num 0,
                  startX = x bestTower, startY = y bestTower\<rparr>]\<rparr>))"

subsection \<open>The rocket loop and the interceptor loop, for any rounding\<close>

definition rocket_advance_fl :: "(real \<Rightarrow> number) \<Rightarrow> Rocket \<Rightarrow> Rocket" where
  "rocket_advance_fl fl rocket =
     (let r1 = rocket\<lparr>progress := fadd fl (progress rocket) (fdiv fl (speed rocket) (Num 100))\<rparr>;
          r2 = r1\<lparr>x := fadd fl (x r1)
                 (fdiv fl (fmul fl (fsub fl (targetX r1) (x r1)) (fdiv fl (speed r1) (Num 100)))
                          (fadd fl (fsub fl (Num 1) (progress r1)) (fl 0.01)))\<rparr>;
          r3 = r2\<lparr>y := fadd fl (y r2)
                 (fdiv fl (fmul fl (fsub fl (targetY r2) (y r2)) (fdiv fl (speed r2) (Num 100)))
                          (fadd fl (fsub fl (Num 1) (progress r2)) (fl 0.01)))\<rparr>
      in r3)"








subsection \<open>The calls of a \<open>forEach\<close> callback\<close>




section \<open>Runs\<close>

text \<open>
  What happens to the component between renders: the reset action, a fire request, or
  a frame of the clock. A run is a sequence of these, handled one after the other.
\<close>

datatype event = Reset | Fire number number | Tick number

fun handle :: "(nat \<Rightarrow> real) \<Rightarrow> game \<Rightarrow> event \<Rightarrow> game" where
  "handle rng st Reset = resetGame st"
| "handle rng st (Fire tX tY) = fireInterceptor rng tX tY st"
| "handle rng st (Tick deltaTime) = update rng deltaTime st"

section \<open>The pass that collects survivors\<close>

text \<open>
  The reimplementation the specification describes for the loops that remove entities:
  every element of the sequence as it is when the loop starts is processed, in order,
  and those that are not removed are collected into a new sequence. The processing of
  one element is the source's (\<open>rocket_advance\<close>, \<open>damage\<close>, \<open>interceptor_advance\<close>,
  \<open>explosion_advance\<close>, the distance test of the collision), and so are the spawn step
  and the final check.
\<close>

definition survivors_rocket :: "(nat \<Rightarrow> real) \<Rightarrow> game \<Rightarrow> Rocket \<Rightarrow> game" where
  "survivors_rocket rng st rocket0 =
     (let rocket = rocket_advance rocket0
      in if nge (y rocket) (targetY rocket) then
           (let (r, st2) = Math_random rng st;
                st3 = st2\<lparr>explosions := explosions st2 @
                        [\<lparr>id = RandomId r, x = targetX rocket, y = targetY rocket,
                          radius = Num 0, maxRadius = Num 40, growthRate = Num 2,
                          isExpanding = True\<rparr>]\<rparr>;
                st4 = st3\<lparr>cities := map (damage (targetX rocket) (targetY rocket)) (cities st3)\<rparr>
            in st4\<lparr>towers := map (damage (targetX rocket) (targetY rocket)) (towers st4)\<rparr>)
         else st\<lparr>rockets := rockets st @ [rocket]\<rparr>)"

definition survivors_rockets :: "(nat \<Rightarrow> real) \<Rightarrow> game \<Rightarrow> game" where
  "survivors_rockets rng st = foldl (survivors_rocket rng) (st\<lparr>rockets := []\<rparr>) (rockets st)"

definition survivors_interceptor :: "(nat \<Rightarrow> real) \<Rightarrow> game \<Rightarrow> Interceptor \<Rightarrow> game" where
  "survivors_interceptor rng st icp0 =
     (let icp = interceptor_advance icp0
      in if nge (progress icp) (Num 1) then
           (let (r, st2) = Math_random rng st
            in st2\<lparr>explosions := explosions st2 @
                 [\<lparr>id = RandomId r, x = targetX icp, y = targetY icp,
                   radius = Num 0, maxRadius = Num 50, growthRate = Num 1.5,
                   isExpanding = True\<rparr>]\<rparr>)
         else st\<lparr>interceptors := interceptors st @ [icp]\<rparr>)"

definition survivors_interceptors :: "(nat \<Rightarrow> real) \<Rightarrow> game \<Rightarrow> game" where
  "survivors_interceptors rng st =
     foldl (survivors_interceptor rng) (st\<lparr>interceptors := []\<rparr>) (interceptors st)"

definition in_blast :: "Explosion \<Rightarrow> Rocket \<Rightarrow> bool" where
  "in_blast expl rocket =
     nlt (Math_sqrt (nadd (Math_pow2 (nsub (x rocket) (x expl)))
                          (Math_pow2 (nsub (y rocket) (y expl)))))
         (radius expl)"

definition survivors_explosion :: "game \<Rightarrow> Explosion \<Rightarrow> game" where
  "survivors_explosion st expl0 =
     (let (expl, gone) = explosion_advance expl0;
          st1 = (if gone then st else st\<lparr>explosions := explosions st @ [expl]\<rparr>)
      in st1\<lparr>rockets := filter (\<lambda>rocket. \<not> in_blast expl rocket) (rockets st1),
             score := score st1 +
               POINTS_PER_KILL * int (length (filter (in_blast expl) (rockets st1)))\<rparr>)"

definition survivors_explosions :: "game \<Rightarrow> game" where
  "survivors_explosions st =
     foldl survivors_explosion (st\<lparr>explosions := []\<rparr>) (explosions st)"

definition update_survivors :: "(nat \<Rightarrow> real) \<Rightarrow> number \<Rightarrow> game \<Rightarrow> game" where
  "update_survivors rng deltaTime st =
     (if gameState st \<noteq> PLAYING then st
      else check_win_loss (score st)
             (survivors_explosions (survivors_interceptors rng (survivors_rockets rng
                (spawn_rockets rng (score st) deltaTime st)))))"

section \<open>Concrete inputs\<close>

text \<open>A random source that always draws 0.\<close>

definition rng0 :: "nat \<Rightarrow> real" where
  "rng0 n = 0"

text \<open>
  Score 1000 in state \<open>PLAYING\<close> (the pass before awarded the fiftieth kill), the outer
  towers destroyed, and a rocket of speed 1, launched at (400, 0), that has made 99 steps
  towards the middle tower.
\<close>

definition st_last_tower :: game where
  "st_last_tower =
    \<lparr>gameState = PLAYING, score = 1000,
     rockets = [\<lparr>id = RandomId (1/4), x = Num 400, y = Num 554.4, targetX = Num 400,
                 targetY = Num 560, speed = Num 1, progress = Num 0.99\<rparr>],
     interceptors = [], explosions = [],
     towers = map (\<lambda>t. if id t = Name ''tower-1'' then t else t\<lparr>isDestroyed := True\<rparr>)
                INITIAL_TOWERS,
     cities = INITIAL_CITIES, spawnTimer = Num 0, randoms = 0\<rparr>"

text \<open>
  Score 980, a rocket of speed 1, launched at (400, 0) towards the middle tower, that
  has made 10 steps and that this pass moves to (400, 61.6), and an explosion centred
  29 units below that point whose radius this pass grows to 30.
\<close>

definition st_kill_50 :: game where
  "st_kill_50 =
    \<lparr>gameState = PLAYING, score = 980,
     rockets = [\<lparr>id = RandomId (1/4), x = Num 400, y = Num 56, targetX = Num 400,
                 targetY = Num 560, speed = Num 1, progress = Num 0.1\<rparr>],
     interceptors = [],
     explosions = [\<lparr>id = RandomId (3/4), x = Num 400, y = Num 90.6, radius = Num 28.5,
                    maxRadius = Num 50, growthRate = Num 1.5, isExpanding = True\<rparr>],
     towers = INITIAL_TOWERS, cities = INITIAL_CITIES, spawnTimer = Num 0, randoms = 0\<rparr>"

text \<open>A fresh game in which the middle tower has been destroyed.\<close>

definition st_tie :: game where
  "st_tie = (resetGame initial_game)
     \<lparr>towers := map (\<lambda>t. if id t = Name ''tower-1'' then t\<lparr>isDestroyed := True\<rparr> else t)
                   INITIAL_TOWERS\<rparr>"

text \<open>
  A fresh game with two rockets of speed 1 in flight: the first was launched at
  (150, 0) towards the city at (150, 570) and has made 99 steps, the second was
  launched at (600, 0) towards the city at (650, 570) and has made one step.
\<close>

definition st_two_rockets :: game where
  "st_two_rockets = (resetGame initial_game)
     \<lparr>rockets :=
        [\<lparr>id = RandomId (1/4), x = Num 150, y = Num 564.3, targetX = Num 150,
          targetY = Num 570, speed = Num 1, progress = Num 0.99\<rparr>,
         \<lparr>id = RandomId (3/4), x = Num 600.5, y = Num 5.7, targetX = Num 650,
          targetY = Num 570, speed = Num 1, progress = Num 0.01\<rparr>]\<rparr>"

text \<open>
  A fresh game with an explosion at (400, 90.6) whose radius this pass grows to 30, and
  two rockets of speed 1 that this pass moves into it: to (400, 61.6), at distance 29,
  and to (423.9, 74.1), at distance 29.04...
\<close>

definition st_two_in_blast :: game where
  "st_two_in_blast = (resetGame initial_game)
     \<lparr>rockets :=
        [\<lparr>id = RandomId (1/4), x = Num 400, y = Num 56, targetX = Num 400,
          targetY = Num 560, speed = Num 1, progress = Num 0.1\<rparr>,
         \<lparr>id = RandomId (1/2), x = Num 423.6, y = Num 68.4, targetX = Num 450,
          targetY = Num 570, speed = Num 1, progress = Num 0.12\<rparr>],
      explosions :=
        [\<lparr>id = RandomId (3/4), x = Num 400, y = Num 90.6, radius = Num 28.5,
          maxRadius = Num 50, growthRate = Num 1.5, isExpanding = True\<rparr>]\<rparr>"

text \<open>
  The explosion an interceptor leaves at (400, 300), as \<open>interceptor_callback\<close> creates
  it, and a fresh game holding it after 33 steps, at radius 49.5.
\<close>

definition expl_50 :: Explosion where
  "expl_50 = \<lparr>id = RandomId 0, x = Num 400, y = Num 300, radius = Num 0, maxRadius = Num 50,
     growthRate = Num 1.5, isExpanding = True\<rparr>"

definition st_peak :: game where
  "st_peak = (resetGame initial_game)\<lparr>explosions := [expl_50\<lparr>radius := Num 49.5\<rparr>]\<rparr>"

text \<open>The explosion of a rocket's impact on the middle tower, after 19 steps.\<close>

definition expl_38 :: Explosion where
  "expl_38 = \<lparr>id = RandomId 0, x = Num 400, y = Num 560, radius = Num 38, maxRadius = Num 40,
     growthRate = Num 2, isExpanding = True\<rparr>"



section \<open>Invariants\<close>

text \<open>
  What the locals \<open>bestTower\<close> and \<open>minDist\<close> hold after the scan of a prefix \<open>ts\<close>
  of the towers, \<open>d\<close> being the computed distance: nothing while no eligible tower of
  \<open>ts\<close> has a computed distance below \<open>Infinity\<close>; otherwise an eligible tower
  than which no eligible tower of \<open>ts\<close> has a smaller computed distance, and no
  earlier one a smaller or equal one.
\<close>

definition least_so_far :: "(Tower \<Rightarrow> number) \<Rightarrow> Tower list \<Rightarrow> nat option \<times> number \<Rightarrow> bool" where
  "least_so_far d ts acc =
     (case fst acc of
        None \<Rightarrow> snd acc = PosInf \<and> (\<forall>k<length ts. eligible (ts ! k) \<longrightarrow> \<not> nlt (d (ts ! k)) PosInf)
      | Some i \<Rightarrow> i < length ts \<and> eligible (ts ! i) \<and> snd acc = d (ts ! i) \<and>
          nlt (d (ts ! i)) PosInf \<and>
          (\<forall>k<length ts. eligible (ts ! k) \<longrightarrow>
             \<not> nlt (d (ts ! k)) (d (ts ! i)) \<and> (k < i \<longrightarrow> \<not> nle (d (ts ! k)) (d (ts ! i)))))"


text \<open>
  The radius of an explosion in the registry. The code creates explosions of two kinds:
  \<open>maxRadius\<close> 40 with \<open>growthRate\<close> 2 (a rocket's impact) and \<open>maxRadius\<close> 50 with
  \<open>growthRate\<close> 1.5 (an interceptor's detonation). While an explosion expands, its
  radius is a multiple of its growth rate below \<open>maxRadius\<close>.
\<close>

definition radius_ok :: "Explosion \<Rightarrow> bool" where
  "radius_ok e =
     (case radius e of
        Num r \<Rightarrow> 0 \<le> r \<and>
          (isExpanding e \<longrightarrow> frac (r / (if maxRadius e = Num 40 then 2 else 1.5)) = 0) \<and>
          (maxRadius e = Num 40 \<and> growthRate e = Num 2 \<and> r \<le> 40 \<and> (isExpanding e \<longrightarrow> r < 40) \<or>
           maxRadius e = Num 50 \<and> growthRate e = Num 1.5 \<and> r \<le> 51 \<and> (isExpanding e \<longrightarrow> r < 50))
      | _ \<Rightarrow> False)"

section \<open>Proofs\<close>

subsection \<open>Evaluation\<close>

lemmas number_defs = ngt_def nge_def nsub_def

lemmas const_defs = GAME_WIDTH_def GAME_HEIGHT_def WIN_SCORE_def POINTS_PER_KILL_def
  INITIAL_TOWERS_def INITIAL_CITIES_def

lemmas pass_defs = update_def update_entities_def spawn_rockets_def update_rockets_def
  rocket_callback_def rocket_advance_def damage_def update_interceptors_def
  interceptor_callback_def interceptor_advance_def update_explosions_def
  explosion_callback_def explosion_advance_def collide_def check_win_loss_def
  forEach_def splice1_def Math_random_def Let_def

text \<open>Comparisons of a square root with a number, decided on the squares.\<close>

lemma sqrt_less_iff_sq: "0 < c \<Longrightarrow> (sqrt a < c) = (a < c\<^sup>2)"
  using real_sqrt_less_iff [of a "c\<^sup>2"] by simp

lemma less_sqrt_iff_sq: "0 \<le> c \<Longrightarrow> (c < sqrt a) = (c\<^sup>2 < a)"
  using real_sqrt_less_iff [of "c\<^sup>2" a] by simp

lemmas sqrt_eval = sqrt_less_iff_sq less_sqrt_iff_sq power2_eq_square

subsection \<open>Invariants of \<open>forEach\<close>\<close>

lemma forEach_from_invariant:
  assumes step: "\<And>k s. P s \<Longrightarrow> k < len s \<Longrightarrow> P (f k s)"
  shows "P st \<Longrightarrow> P (forEach_from len f n k st)"
proof (induction n arbitrary: k st)
  case 0
  then show ?case by simp
next
  case (Suc n)
  from Suc.prems have "P (if k < len st then f k st else st)"
    by (simp add: step)
  then show ?case
    by (simp add: Suc.IH del: if_split)
qed

lemma forEach_invariant:
  assumes "\<And>k s. P s \<Longrightarrow> k < len s \<Longrightarrow> P (f k s)" and "P st"
  shows "P (forEach len f st)"
  unfolding forEach_def using assms by (rule forEach_from_invariant)

subsection \<open>The loops leave \<open>gameState\<close> alone\<close>

lemma gameState_spawn_rockets [simp]:
  "gameState (spawn_rockets rng sc deltaTime st) = gameState st"
  by (simp add: spawn_rockets_def Math_random_def Let_def)

lemma gameState_rocket_callback [simp]:
  "gameState (rocket_callback rng k st) = gameState st"
  by (simp add: rocket_callback_def Math_random_def Let_def)

lemma gameState_interceptor_callback [simp]:
  "gameState (interceptor_callback rng k st) = gameState st"
  by (simp add: interceptor_callback_def Math_random_def Let_def)

lemma gameState_collide [simp]: "gameState (collide expl k st) = gameState st"
  by (simp add: collide_def Let_def)

lemma gameState_explosion_callback [simp]:
  "gameState (explosion_callback k st) = gameState st"
proof -
  have "gameState (forEach (\<lambda>s. length (rockets s)) (collide expl) s0) = gameState s0"
    for expl s0
    by (rule forEach_invariant [where P = "\<lambda>s. gameState s = gameState s0"]) simp_all
  then show ?thesis
    by (simp add: explosion_callback_def Let_def split: prod.split)
qed

lemma gameState_update_entities [simp]:
  "gameState (update_entities rng deltaTime st) = gameState st"
proof -
  let ?s1 = "spawn_rockets rng (score st) deltaTime st"
  let ?s2 = "update_rockets rng ?s1"
  let ?s3 = "update_interceptors rng ?s2"
  have "gameState ?s2 = gameState st"
    unfolding update_rockets_def
    by (rule forEach_invariant [where P = "\<lambda>s. gameState s = gameState st"]) simp_all
  then have "gameState ?s3 = gameState st"
    unfolding update_interceptors_def
    by (intro forEach_invariant [where P = "\<lambda>s. gameState s = gameState st"]) simp_all
  then have "gameState (update_explosions ?s3) = gameState st"
    unfolding update_explosions_def
    by (intro forEach_invariant [where P = "\<lambda>s. gameState s = gameState st"]) simp_all
  then show ?thesis
    by (simp add: update_entities_def)
qed

subsection \<open>The check at the end of a pass\<close>

lemma towers_check: "towers (check_win_loss sc st) = towers st"
  by (simp add: check_win_loss_def Let_def)

lemma score_check: "score (check_win_loss sc st) = score st"
  by (simp add: check_win_loss_def Let_def)

lemma gameState_check:
  "gameState (check_win_loss sc st) =
     (if list_all isDestroyed (towers st) then LOST
      else if WIN_SCORE \<le> sc then WON else gameState st)"
  by (simp add: check_win_loss_def Let_def)

lemma gameState_update:
  "gameState st = PLAYING \<Longrightarrow>
   gameState (update rng deltaTime st) =
     (if list_all isDestroyed (towers (update rng deltaTime st)) then LOST
      else if WIN_SCORE \<le> score st then WON else PLAYING)"
  by (simp add: update_def gameState_check towers_check)

text \<open>
  C1 (as amended). In a pass in state \<open>PLAYING\<close> after whose explosion step the score is
  at least \<open>WIN_SCORE\<close> and every tower is destroyed, both checks fire, and the state
  after the pass is the one set last: \<open>LOST\<close>.
\<close>

theorem C1_simultaneous_win_and_loss_is_LOST:
  assumes "gameState st = PLAYING"
    and "WIN_SCORE \<le> score (update_entities rng deltaTime st)"
    and "list_all isDestroyed (towers (update_entities rng deltaTime st))"
  shows "gameState (update rng deltaTime st) = LOST"
  using assms by (simp add: update_def gameState_check)

theorem C1_witness:
  "gameState st_last_tower = PLAYING \<and>
   WIN_SCORE \<le> score (update_entities rng0 (Num 16) st_last_tower) \<and>
   list_all isDestroyed (towers (update_entities rng0 (Num 16) st_last_tower)) \<and>
   gameState (update rng0 (Num 16) st_last_tower) = LOST"
proof -
  have h1: "gameState st_last_tower = PLAYING"
    by (simp add: st_last_tower_def)
  have h2: "WIN_SCORE \<le> score (update_entities rng0 (Num 16) st_last_tower)"
    by (simp add: st_last_tower_def pass_defs number_defs const_defs rng0_def)
  have h3: "list_all isDestroyed (towers (update_entities rng0 (Num 16) st_last_tower))"
    by (simp add: st_last_tower_def pass_defs number_defs const_defs rng0_def)
  from C1_simultaneous_win_and_loss_is_LOST [OF h1 h2 h3] h1 h2 h3 show ?thesis
    by simp
qed

text \<open>
  The claim C1 as stated fails: the pass from \<open>st_last_tower\<close> destroys the last tower
  with the score at 1000, and ends in \<open>LOST\<close>, not \<open>WON\<close>.
\<close>

theorem C1_counterexample:
  "gameState st_last_tower = PLAYING \<and>
   WIN_SCORE \<le> score (update_entities rng0 (Num 16) st_last_tower) \<and>
   list_all isDestroyed (towers (update_entities rng0 (Num 16) st_last_tower)) \<and>
   gameState (update rng0 (Num 16) st_last_tower) \<noteq> WON"
  by (simp add: st_last_tower_def pass_defs number_defs const_defs rng0_def)

text \<open>
  C2 (as amended). The check compares \<open>WIN_SCORE\<close> with the score of the start of the
  pass. A pass in state \<open>PLAYING\<close> whose kills raise the score from below \<open>WIN_SCORE\<close>
  to at least \<open>WIN_SCORE\<close> does not end in \<open>WON\<close>: it ends in \<open>PLAYING\<close>, or in \<open>LOST\<close>
  when every tower is destroyed. The pass after it, if the state is still \<open>PLAYING\<close>,
  ends in \<open>WON\<close> unless every tower is destroyed.
\<close>

theorem C2_win_check_reads_score_of_pass_start:
  assumes "gameState st = PLAYING"
    and "score st < WIN_SCORE"
    and "WIN_SCORE \<le> score (update rng deltaTime st)"
  shows "gameState (update rng deltaTime st) =
           (if list_all isDestroyed (towers (update rng deltaTime st)) then LOST else PLAYING) \<and>
         (gameState (update rng deltaTime st) = PLAYING \<longrightarrow>
          gameState (update rng' deltaTime' (update rng deltaTime st)) =
           (if list_all isDestroyed (towers (update rng' deltaTime' (update rng deltaTime st)))
            then LOST else WON))"
proof (intro conjI impI)
  show "gameState (update rng deltaTime st) =
          (if list_all isDestroyed (towers (update rng deltaTime st)) then LOST else PLAYING)"
    using assms(1,2) by (simp add: gameState_update)
next
  assume "gameState (update rng deltaTime st) = PLAYING"
  from gameState_update [OF this, of rng' deltaTime'] assms(3)
  show "gameState (update rng' deltaTime' (update rng deltaTime st)) =
          (if list_all isDestroyed (towers (update rng' deltaTime' (update rng deltaTime st)))
           then LOST else WON)"
    by simp
qed

theorem C2_witness:
  "gameState st_kill_50 = PLAYING \<and> score st_kill_50 < WIN_SCORE \<and>
   WIN_SCORE \<le> score (update rng0 (Num 16) st_kill_50) \<and>
   gameState (update rng0 (Num 16) st_kill_50) = PLAYING \<and>
   gameState (update rng0 (Num 16) (update rng0 (Num 16) st_kill_50)) = WON"
proof -
  have h1: "gameState st_kill_50 = PLAYING" and h2: "score st_kill_50 < WIN_SCORE"
    by (simp_all add: st_kill_50_def WIN_SCORE_def)
  have run: "update rng0 (Num 16) st_kill_50 =
      st_kill_50\<lparr>score := 1000, rockets := [],
        explosions := [\<lparr>id = RandomId (3/4), x = Num 400, y = Num 90.6, radius = Num 30,
                    maxRadius = Num 50, growthRate = Num 1.5, isExpanding = True\<rparr>],
        spawnTimer := Num 16\<rparr>"
    by (simp add: st_kill_50_def pass_defs number_defs const_defs rng0_def sqrt_eval)
  have h3: "WIN_SCORE \<le> score (update rng0 (Num 16) st_kill_50)"
    by (simp add: run WIN_SCORE_def)
  have t1: "\<not> list_all isDestroyed (towers (update rng0 (Num 16) st_kill_50))"
    by (subst run) (simp add: st_kill_50_def const_defs)
  have t2: "\<not> list_all isDestroyed
      (towers (update rng0 (Num 16) (update rng0 (Num 16) st_kill_50)))"
    unfolding run by (simp add: st_kill_50_def pass_defs number_defs const_defs rng0_def)
  from C2_win_check_reads_score_of_pass_start [OF h1 h2 h3, of rng0 "Num 16"] h1 h2 h3 t1 t2
  show ?thesis by simp
qed

text \<open>
  The claim C2 as stated fails: the pass from \<open>st_kill_50\<close> awards the kill that takes
  the score from 980 to 1000, and the state after it is not \<open>WON\<close>.
\<close>

theorem C2_counterexample:
  "gameState st_kill_50 = PLAYING \<and> score st_kill_50 < WIN_SCORE \<and>
   score (update rng0 (Num 16) st_kill_50) = score st_kill_50 + POINTS_PER_KILL \<and>
   WIN_SCORE \<le> score (update rng0 (Num 16) st_kill_50) \<and>
   gameState (update rng0 (Num 16) st_kill_50) \<noteq> WON"
  by (simp add: st_kill_50_def pass_defs number_defs const_defs rng0_def sqrt_eval)

text \<open>
  C9. While the state is not \<open>PLAYING\<close> (\<open>START\<close>, \<open>WON\<close> or \<open>LOST\<close>), a call of
  \<open>update\<close> and a call of \<open>fireInterceptor\<close> return the state as it was, every field
  of it, and so does any sequence of \<open>update\<close> calls.
\<close>

theorem C9_not_playing_changes_nothing:
  assumes "gameState st \<noteq> PLAYING"
  shows "update rng deltaTime st = st \<and> fireInterceptor rng tX tY st = st \<and>
         foldl (\<lambda>s dt. update rng dt s) st dts = st"
proof (intro conjI)
  show "update rng deltaTime st = st"
    using assms by (simp add: update_def)
  show "fireInterceptor rng tX tY st = st"
    using assms by (simp add: fireInterceptor_def)
  show "foldl (\<lambda>s dt. update rng dt s) st dts = st"
    using assms by (induction dts) (simp_all add: update_def)
qed

theorem C9_witness:
  "gameState (update rng0 (Num 16) st_last_tower) \<noteq> PLAYING \<and>
   update rng0 (Num 16) (update rng0 (Num 16) st_last_tower) = update rng0 (Num 16) st_last_tower \<and>
   fireInterceptor rng0 (Num 400) (Num 300) (update rng0 (Num 16) st_last_tower)
     = update rng0 (Num 16) st_last_tower \<and>
   foldl (\<lambda>s dt. update rng0 dt s) (update rng0 (Num 16) st_last_tower) [Num 16, Num 17, Num 16]
     = update rng0 (Num 16) st_last_tower"
proof -
  have h: "gameState (update rng0 (Num 16) st_last_tower) \<noteq> PLAYING"
    by (simp add: st_last_tower_def pass_defs number_defs const_defs rng0_def)
  from C9_not_playing_changes_nothing [OF h] h show ?thesis
    by blast
qed

subsection \<open>The scan for the best tower\<close>

lemma find_best_snoc:
  "find_best tX tY (ts @ [t]) = scan_tower tX tY (find_best tX tY ts) (length ts, t)"
  by (simp add: find_best_def enumerate_append_eq)

lemma find_best_eligible:
  "fst (find_best tX tY ts) = Some i \<Longrightarrow> i < length ts \<and> eligible (ts ! i)"
proof (induction ts arbitrary: i rule: rev_induct)
  case Nil
  then show ?case by (simp add: find_best_def)
next
  case (snoc t ts)
  then show ?case
    by (auto simp: find_best_snoc scan_tower_def eligible_def Let_def nth_append
             split: if_splits)
qed

lemma find_best_none:
  "\<forall>t\<in>set ts. \<not> eligible t \<Longrightarrow> find_best tX tY ts = (None, PosInf)"
proof (induction ts rule: rev_induct)
  case Nil
  then show ?case by (simp add: find_best_def)
next
  case (snoc t ts)
  then show ?case
    by (auto simp: find_best_snoc scan_tower_def eligible_def)
qed

lemma fire_Some:
  assumes "gameState st = PLAYING" and "fst (find_best tX tY (towers st)) = Some i"
  shows "fireInterceptor rng tX tY st =
     st\<lparr>towers := (towers st)[i := (towers st ! i)\<lparr>ammo := ammo (towers st ! i) - 1\<rparr>],
        randoms := Suc (randoms st),
        interceptors := interceptors st @
          [\<lparr>id = RandomId (frac (rng (randoms st))), x = x (towers st ! i),
            y = y (towers st ! i), targetX = tX, targetY = tY, speed = Num 10,
            progress = Num 0, startX = x (towers st ! i), startY = y (towers st ! i)\<rparr>]\<rparr>"
  using assms by (simp add: fireInterceptor_def Math_random_def Let_def)

lemma fire_unchanged_or_fired:
  "fireInterceptor rng tX tY st = st \<or>
   (\<exists>i<length (towers st). \<exists>icp. eligible (towers st ! i) \<and>
      fireInterceptor rng tX tY st =
        st\<lparr>towers := (towers st)[i := (towers st ! i)\<lparr>ammo := ammo (towers st ! i) - 1\<rparr>],
           randoms := Suc (randoms st),
           interceptors := interceptors st @ [icp]\<rparr>)"
proof (cases "gameState st \<noteq> PLAYING \<or> fst (find_best tX tY (towers st)) = None")
  case True
  then show ?thesis by (auto simp: fireInterceptor_def)
next
  case False
  then obtain i where i: "fst (find_best tX tY (towers st)) = Some i" and p: "gameState st = PLAYING"
    by auto
  from find_best_eligible [OF i] have "i < length (towers st)" "eligible (towers st ! i)" by simp_all
  moreover have "\<exists>icp. fireInterceptor rng tX tY st =
        st\<lparr>towers := (towers st)[i := (towers st ! i)\<lparr>ammo := ammo (towers st ! i) - 1\<rparr>],
           randoms := Suc (randoms st),
           interceptors := interceptors st @ [icp]\<rparr>"
    using fire_Some [OF p i, of rng] by blast
  ultimately show ?thesis by blast
qed

lemma fire_keeps_ammo_nonneg:
  assumes "\<forall>t\<in>set (towers st). 0 \<le> ammo t"
  shows "\<forall>t\<in>set (towers (fireInterceptor rng tX tY st)). 0 \<le> ammo t"
proof -
  from fire_unchanged_or_fired [of rng tX tY st] show ?thesis
  proof
    assume "fireInterceptor rng tX tY st = st"
    with assms show ?thesis by simp
  next
    assume "\<exists>i<length (towers st). \<exists>icp. eligible (towers st ! i) \<and>
      fireInterceptor rng tX tY st =
        st\<lparr>towers := (towers st)[i := (towers st ! i)\<lparr>ammo := ammo (towers st ! i) - 1\<rparr>],
           randoms := Suc (randoms st),
           interceptors := interceptors st @ [icp]\<rparr>"
    then obtain i icp where i: "i < length (towers st)" "eligible (towers st ! i)"
      and eq: "fireInterceptor rng tX tY st =
        st\<lparr>towers := (towers st)[i := (towers st ! i)\<lparr>ammo := ammo (towers st ! i) - 1\<rparr>],
           randoms := Suc (randoms st),
           interceptors := interceptors st @ [icp]\<rparr>"
      by blast
    have "0 \<le> ammo t" if "t \<in> set ((towers st)[i := (towers st ! i)\<lparr>ammo := ammo (towers st ! i) - 1\<rparr>])" for t
    proof -
      from that have "t = (towers st ! i)\<lparr>ammo := ammo (towers st ! i) - 1\<rparr> \<or> t \<in> set (towers st)"
        using set_update_subset_insert by fastforce
      with i(2) assms show ?thesis by (auto simp: eligible_def)
    qed
    then show ?thesis by (simp add: eq)
  qed
qed

subsection \<open>Ammo\<close>

lemma ammo_damage [simp]: "ammo (damage tX tY t) = ammo t"
  by (simp add: damage_def)

lemma ammo_spawn_rockets [simp]:
  "towers (spawn_rockets rng sc deltaTime st) = towers st"
  by (simp add: spawn_rockets_def Math_random_def Let_def)

lemma ammo_rocket_callback [simp]:
  "map ammo (towers (rocket_callback rng k st)) = map ammo (towers st)"
  by (simp add: rocket_callback_def Math_random_def Let_def comp_def)

lemma towers_interceptor_callback [simp]:
  "towers (interceptor_callback rng k st) = towers st"
  by (simp add: interceptor_callback_def Math_random_def Let_def)

lemma towers_collide [simp]: "towers (collide expl k st) = towers st"
  by (simp add: collide_def Let_def)

lemma towers_explosion_callback [simp]: "towers (explosion_callback k st) = towers st"
proof -
  have "towers (forEach (\<lambda>s. length (rockets s)) (collide expl) s0) = towers s0" for expl s0
    by (rule forEach_invariant [where P = "\<lambda>s. towers s = towers s0"]) simp_all
  then show ?thesis
    by (simp add: explosion_callback_def Let_def split: prod.split)
qed

lemma ammo_update: "map ammo (towers (update rng deltaTime st)) = map ammo (towers st)"
proof -
  let ?P = "\<lambda>s. map ammo (towers s) = map ammo (towers st)"
  let ?s1 = "spawn_rockets rng (score st) deltaTime st"
  let ?s2 = "update_rockets rng ?s1"
  let ?s3 = "update_interceptors rng ?s2"
  have "?P ?s1" by simp
  then have "?P ?s2"
    unfolding update_rockets_def
    by (intro forEach_invariant [where P = ?P]) simp_all
  then have "?P ?s3"
    unfolding update_interceptors_def
    by (intro forEach_invariant [where P = ?P]) simp_all
  then have "?P (update_explosions ?s3)"
    unfolding update_explosions_def
    by (intro forEach_invariant [where P = ?P]) simp_all
  then show ?thesis
    by (simp add: update_def update_entities_def towers_check)
qed

lemma ammo_nonneg_handle:
  assumes "\<forall>t\<in>set (towers st). 0 \<le> ammo t"
  shows "\<forall>t\<in>set (towers (handle rng st ev)). 0 \<le> ammo t"
proof (cases ev)
  case Reset
  then show ?thesis by (simp add: resetGame_def INITIAL_TOWERS_def)
next
  case (Fire tX tY)
  with fire_keeps_ammo_nonneg [OF assms] show ?thesis by simp
next
  case (Tick deltaTime)
  from assms have "\<forall>a\<in>set (map ammo (towers st)). 0 \<le> a" by simp
  then have "\<forall>a\<in>set (map ammo (towers (update rng deltaTime st))). 0 \<le> a"
    by (simp only: ammo_update)
  with Tick show ?thesis by simp
qed

lemma ammo_nonneg_run:
  "\<forall>t\<in>set (towers st). 0 \<le> ammo t \<Longrightarrow>
   \<forall>t\<in>set (towers (foldl (handle rng) st evs)). 0 \<le> ammo t"
proof (induction evs arbitrary: st)
  case Nil
  then show ?case by simp
next
  case (Cons ev evs)
  from Cons.IH [OF ammo_nonneg_handle [OF Cons.prems]] show ?case by simp
qed

text \<open>
  C6. From towers whose ammo is not negative, no sequence of \<open>fireInterceptor\<close> calls
  (\<open>shots\<close> lists their target points) makes a tower's ammo negative. One call either
  returns the state as it was, or decrements the ammo of exactly one tower, an
  eligible one, by exactly 1, appends exactly one interceptor, and draws one random
  number for its id. With no eligible tower the call returns the state as it was.
  Nor does any run (resets, fire requests and passes, in any order) make a tower's
  ammo negative, from such towers or from the first render.
\<close>

theorem C6_ammo_conservation:
  assumes "\<forall>t\<in>set (towers st). 0 \<le> ammo t"
  shows "(\<forall>t\<in>set (towers (foldl (\<lambda>s p. fireInterceptor rng (fst p) (snd p) s) st shots)). 0 \<le> ammo t) \<and>
         (fireInterceptor rng tX tY st = st \<or>
          (\<exists>i<length (towers st). \<exists>icp. eligible (towers st ! i) \<and>
             fireInterceptor rng tX tY st =
               st\<lparr>towers := (towers st)[i := (towers st ! i)\<lparr>ammo := ammo (towers st ! i) - 1\<rparr>],
                  randoms := Suc (randoms st),
                  interceptors := interceptors st @ [icp]\<rparr>)) \<and>
         ((\<forall>t\<in>set (towers st). \<not> eligible t) \<longrightarrow> fireInterceptor rng tX tY st = st) \<and>
         (\<forall>t\<in>set (towers (foldl (handle rng) st evs)). 0 \<le> ammo t) \<and>
         (\<forall>t\<in>set (towers (foldl (handle rng) initial_game evs)). 0 \<le> ammo t)"
proof (intro conjI impI)
  show "\<forall>t\<in>set (towers (foldl (\<lambda>s p. fireInterceptor rng (fst p) (snd p) s) st shots)). 0 \<le> ammo t"
    using assms
  proof (induction shots arbitrary: st)
    case Nil
    then show ?case by simp
  next
    case (Cons p shots)
    from fire_keeps_ammo_nonneg [OF Cons.prems]
    have "\<forall>t\<in>set (towers (fireInterceptor rng (fst p) (snd p) st)). 0 \<le> ammo t" .
    from Cons.IH [OF this] show ?case by simp
  qed
next
  show "fireInterceptor rng tX tY st = st \<or>
          (\<exists>i<length (towers st). \<exists>icp. eligible (towers st ! i) \<and>
             fireInterceptor rng tX tY st =
               st\<lparr>towers := (towers st)[i := (towers st ! i)\<lparr>ammo := ammo (towers st ! i) - 1\<rparr>],
                  randoms := Suc (randoms st),
                  interceptors := interceptors st @ [icp]\<rparr>)"
    by (rule fire_unchanged_or_fired)
next
  assume "\<forall>t\<in>set (towers st). \<not> eligible t"
  then show "fireInterceptor rng tX tY st = st"
    by (simp add: fireInterceptor_def find_best_none)
next
  show "\<forall>t\<in>set (towers (foldl (handle rng) st evs)). 0 \<le> ammo t"
    using assms by (rule ammo_nonneg_run)
next
  show "\<forall>t\<in>set (towers (foldl (handle rng) initial_game evs)). 0 \<le> ammo t"
    by (rule ammo_nonneg_run) (simp add: initial_game_def INITIAL_TOWERS_def)
qed


theorem C6_witness:
  "list_all (\<lambda>t. 0 \<le> ammo t) (towers st_tie) \<and>
   list_all (\<lambda>t. 0 \<le> ammo t)
     (towers (foldl (\<lambda>s p. fireInterceptor rng0 (fst p) (snd p) s) st_tie
        [(Num 400, Num 300), (Num 700, Num 100)])) \<and>
   map ammo (towers (fireInterceptor rng0 (Num 400) (Num 300) st_tie)) = [39, 80, 40] \<and>
   length (interceptors (fireInterceptor rng0 (Num 400) (Num 300) st_tie)) =
     Suc (length (interceptors st_tie))"
proof -
  have h: "\<forall>t\<in>set (towers st_tie). 0 \<le> ammo t"
    by (simp add: st_tie_def const_defs)
  have f: "map ammo (towers (fireInterceptor rng0 (Num 400) (Num 300) st_tie)) = [39, 80, 40]"
    "length (interceptors (fireInterceptor rng0 (Num 400) (Num 300) st_tie)) =
     Suc (length (interceptors st_tie))"
    by (simp_all add: st_tie_def resetGame_def initial_game_def const_defs fireInterceptor_def
          find_best_def scan_tower_def tower_dist_def nsub_def Math_random_def Let_def)
  from C6_ammo_conservation [OF h, where rng = rng0
      and shots = "[(Num 400, Num 300), (Num 700, Num 100)]"] h f
  show ?thesis
    by (simp add: list_all_iff)
qed

subsection \<open>An interceptor fired at its own tower\<close>

lemma splice1_update [simp]: "splice1 k (xs[k := v]) = splice1 k xs"
  by (simp add: splice1_def)

text \<open>
  C8 (as amended). For an interceptor of speed 10 with finite progress whose target
  point is its (finite) start point, one step of the interceptor update divides by a
  distance of zero: the progress becomes \<open>Infinity\<close>, not 1, and the position becomes
  \<open>NaN\<close> (\<open>0 * Infinity\<close>). As \<open>Infinity >= 1\<close>, the callback still takes the interceptor
  as arrived: it appends an explosion at the target point and splices the interceptor
  out.
\<close>

theorem C8_zero_distance_gives_infinite_progress:
  assumes "startX icp = Num a" and "startY icp = Num b"
    and "targetX icp = Num a" and "targetY icp = Num b"
    and "speed icp = Num 10" and "progress icp = Num p"
  shows "progress (interceptor_advance icp) = PosInf \<and>
         x (interceptor_advance icp) = NaN \<and> y (interceptor_advance icp) = NaN \<and>
         (index < length (interceptors st) \<and> interceptors st ! index = icp \<longrightarrow>
          interceptor_callback rng index st =
            st\<lparr>interceptors := splice1 index (interceptors st),
               randoms := Suc (randoms st),
               explosions := explosions st @
                 [\<lparr>id = RandomId (frac (rng (randoms st))), x = Num a, y = Num b,
                   radius = Num 0, maxRadius = Num 50, growthRate = Num 1.5,
                   isExpanding = True\<rparr>]\<rparr>)"
proof -
  have adv: "interceptor_advance icp = icp\<lparr>progress := PosInf, x := NaN, y := NaN\<rparr>"
    using assms by (simp add: interceptor_advance_def Let_def nsub_def)
  show ?thesis
    using assms by (simp add: adv interceptor_callback_def Let_def Math_random_def nge_def)
qed


theorem C8_witness:
  "interceptors (fireInterceptor rng0 (Num 400) (Num 560) (resetGame initial_game)) =
     [\<lparr>id = RandomId 0, x = Num 400, y = Num 560, targetX = Num 400, targetY = Num 560,
       speed = Num 10, progress = Num 0, startX = Num 400, startY = Num 560\<rparr>] \<and>
   progress (interceptor_advance
     \<lparr>id = RandomId 0, x = Num 400, y = Num 560, targetX = Num 400, targetY = Num 560,
      speed = Num 10, progress = Num 0, startX = Num 400, startY = Num 560\<rparr>) = PosInf \<and>
   interceptors (update_interceptors rng0
     (fireInterceptor rng0 (Num 400) (Num 560) (resetGame initial_game))) = [] \<and>
   explosions (update_interceptors rng0
     (fireInterceptor rng0 (Num 400) (Num 560) (resetGame initial_game))) =
     [\<lparr>id = RandomId 0, x = Num 400, y = Num 560, radius = Num 0, maxRadius = Num 50,
       growthRate = Num 1.5, isExpanding = True\<rparr>]"
proof -
  let ?icp = "\<lparr>id = RandomId 0, x = Num 400, y = Num 560, targetX = Num 400,
      targetY = Num 560, speed = Num 10, progress = Num 0, startX = Num 400,
      startY = Num 560\<rparr>"
  let ?st = "fireInterceptor rng0 (Num 400) (Num 560) (resetGame initial_game)"
  have f: "?st = (resetGame initial_game)
        \<lparr>towers := INITIAL_TOWERS[1 := (INITIAL_TOWERS ! 1)\<lparr>ammo := 79\<rparr>],
         randoms := 1, interceptors := [?icp]\<rparr>"
    by (simp add: resetGame_def initial_game_def const_defs fireInterceptor_def
          find_best_def scan_tower_def tower_dist_def nsub_def Math_random_def Let_def rng0_def)
  have ic: "interceptors ?st = [?icp]" and ex: "explosions ?st = []"
    and rn: "randoms ?st = 1"
    by (subst f, simp add: resetGame_def initial_game_def)+
  have i: "0 < length (interceptors ?st) \<and> interceptors ?st ! 0 = ?icp"
    by (simp add: ic)
  from C8_zero_distance_gives_infinite_progress [of ?icp 400 560 0 0 ?st rng0] i
  have adv: "progress (interceptor_advance ?icp) = PosInf"
    and cb: "interceptor_callback rng0 0 ?st =
            ?st\<lparr>interceptors := splice1 0 (interceptors ?st),
               randoms := Suc (randoms ?st),
               explosions := explosions ?st @
                 [\<lparr>id = RandomId (frac (rng0 (randoms ?st))), x = Num 400, y = Num 560,
                   radius = Num 0, maxRadius = Num 50, growthRate = Num 1.5,
                   isExpanding = True\<rparr>]\<rparr>"
    by simp_all
  have u: "update_interceptors rng0 ?st = interceptor_callback rng0 0 ?st"
    by (simp add: update_interceptors_def forEach_def ic)
  have "interceptors (update_interceptors rng0 ?st) = []"
    unfolding u cb by (simp add: ic splice1_def)
  moreover have "explosions (update_interceptors rng0 ?st) =
     [\<lparr>id = RandomId 0, x = Num 400, y = Num 560, radius = Num 0, maxRadius = Num 50,
       growthRate = Num 1.5, isExpanding = True\<rparr>]"
    unfolding u cb by (simp add: ex rng0_def)
  ultimately show ?thesis
    using adv ic by blast
qed

text \<open>
  The claim C8 as stated fails: a click on the middle tower's own position fires an
  interceptor whose target is its start, and the step of that interceptor gives it a
  progress that is not 1 and not finite, and a position that is not finite.
\<close>

theorem C8_counterexample:
  "startX (last (interceptors (fireInterceptor rng0 (Num 400) (Num 560) (resetGame initial_game))))
     = targetX (last (interceptors (fireInterceptor rng0 (Num 400) (Num 560) (resetGame initial_game)))) \<and>
   startY (last (interceptors (fireInterceptor rng0 (Num 400) (Num 560) (resetGame initial_game))))
     = targetY (last (interceptors (fireInterceptor rng0 (Num 400) (Num 560) (resetGame initial_game)))) \<and>
   progress (interceptor_advance
     (last (interceptors (fireInterceptor rng0 (Num 400) (Num 560) (resetGame initial_game))))) \<noteq> Num 1 \<and>
   \<not> is_num (progress (interceptor_advance
     (last (interceptors (fireInterceptor rng0 (Num 400) (Num 560) (resetGame initial_game)))))) \<and>
   \<not> is_num (x (interceptor_advance
     (last (interceptors (fireInterceptor rng0 (Num 400) (Num 560) (resetGame initial_game))))))"
  by (simp add: fireInterceptor_def resetGame_def initial_game_def find_best_def scan_tower_def
        tower_dist_def nsub_def const_defs Let_def Math_random_def interceptor_advance_def)


subsection \<open>The radius of an explosion\<close>

lemma multiple_bound:
  fixes r g m :: real
  assumes "frac (r / g) = 0" "0 < g" "r < m" "frac (m / g) = 0"
  shows "r + g \<le> m"
proof -
  from assms(1) obtain i :: int where i: "r / g = of_int i"
    by (auto simp: frac_eq_0_iff elim: Ints_cases)
  from assms(4) obtain j :: int where j: "m / g = of_int j"
    by (auto simp: frac_eq_0_iff elim: Ints_cases)
  from assms(2,3) have "r / g < m / g"
    by (simp add: divide_strict_right_mono)
  with i j have "i < j" by simp
  then have "i + 1 \<le> j" by simp
  then have "(of_int (i + 1) :: real) \<le> of_int j"
    using of_int_le_iff by blast
  with i j have "r / g + 1 \<le> m / g" by simp
  with assms(2) have "(r / g + 1) * g \<le> (m / g) * g"
    by (intro mult_right_mono) simp_all
  with assms(2) show ?thesis
    by (simp add: distrib_right)
qed

lemma frac_step:
  fixes r g :: real
  assumes "frac (r / g) = 0" "g \<noteq> 0"
  shows "frac ((r + g) / g) = 0"
proof -
  have "(r + g) / g = r / g + 1"
    using assms(2) by (simp add: field_simps)
  with assms(1) show ?thesis
    by (simp add: frac_eq_0_iff)
qed

lemma radius_ok_advance:
  assumes "radius_ok e" and "\<not> snd (explosion_advance e)"
  shows "radius_ok (fst (explosion_advance e))"
proof -
  from assms(1) obtain r where r: "radius e = Num r"
    by (auto simp: radius_ok_def split: number.splits)
  show ?thesis
  proof (cases "isExpanding e")
    case False
    with assms r show ?thesis
      by (auto simp: radius_ok_def explosion_advance_def Let_def nsub_def)
  next
    case True
    from assms(1) r consider
      (impact) "maxRadius e = Num 40" "growthRate e = Num 2" "0 \<le> r" "r < 40" "frac (r / 2) = 0"
      | (inter) "maxRadius e = Num 50" "growthRate e = Num 1.5" "0 \<le> r" "r < 50" "frac (r / 1.5) = 0"
      using True by (auto simp: radius_ok_def)
    then show ?thesis
    proof cases
      case impact
      from multiple_bound [OF impact(5) _ impact(4)] have "r + 2 \<le> 40" by simp
      moreover from frac_step [OF impact(5)] have "frac ((r + 2) / 2) = 0" by simp
      ultimately show ?thesis
        using impact r True
        by (simp add: radius_ok_def explosion_advance_def Let_def nge_def)
    next
      case inter
      have "frac ((51::real) / 1.5) = 0" by (simp add: frac_eq_0_iff)
      from multiple_bound [OF inter(5) _ _ this] inter(4) have "r + 1.5 \<le> 51" by simp
      moreover from frac_step [OF inter(5)] have "frac ((r + 1.5) / 1.5) = 0" by simp
      ultimately show ?thesis
        using inter r True
        by (simp add: radius_ok_def explosion_advance_def Let_def nge_def)
    qed
  qed
qed

lemma list_all_update:
  "list_all P xs \<Longrightarrow> P v \<Longrightarrow> list_all P (xs[k := v])"
  unfolding list_all_iff using set_update_subset_insert [of xs k v] by auto

lemma list_all_splice1:
  "list_all P xs \<Longrightarrow> list_all P (splice1 k xs)"
  by (auto simp: splice1_def list_all_iff dest: in_set_takeD in_set_dropD)

lemma explosions_spawn_rockets [simp]:
  "explosions (spawn_rockets rng sc deltaTime st) = explosions st"
  by (simp add: spawn_rockets_def Math_random_def Let_def)

lemma radius_ok_impact:
  "radius_ok \<lparr>id = i, x = a, y = b, radius = Num 0, maxRadius = Num 40, growthRate = Num 2,
     isExpanding = True\<rparr>"
  by (simp add: radius_ok_def)

lemma radius_ok_blast:
  "radius_ok \<lparr>id = i, x = a, y = b, radius = Num 0, maxRadius = Num 50, growthRate = Num 1.5,
     isExpanding = True\<rparr>"
  by (simp add: radius_ok_def)

lemma radius_ok_rocket_callback:
  "list_all radius_ok (explosions st) \<Longrightarrow>
   list_all radius_ok (explosions (rocket_callback rng k st))"
  by (simp add: rocket_callback_def Math_random_def Let_def radius_ok_impact)

lemma radius_ok_interceptor_callback:
  "list_all radius_ok (explosions st) \<Longrightarrow>
   list_all radius_ok (explosions (interceptor_callback rng k st))"
  using radius_ok_blast
  by (simp add: interceptor_callback_def Math_random_def Let_def)

lemma explosions_collide [simp]: "explosions (collide expl k st) = explosions st"
  by (simp add: collide_def Let_def)

lemma explosions_collide_all [simp]:
  "explosions (forEach (\<lambda>s. length (rockets s)) (collide expl) st) = explosions st"
  by (rule forEach_invariant [where P = "\<lambda>s. explosions s = explosions st"]) simp_all

lemma radius_ok_explosion_callback:
  assumes "list_all radius_ok (explosions st)" and "k < length (explosions st)"
  shows "list_all radius_ok (explosions (explosion_callback k st))"
proof -
  obtain e gone where adv: "explosion_advance (explosions st ! k) = (e, gone)"
    by (cases "explosion_advance (explosions st ! k)")
  from assms have ok: "radius_ok (explosions st ! k)"
    by (simp add: list_all_length)
  show ?thesis
  proof (cases gone)
    case True
    with adv assms(1) show ?thesis
      by (simp add: explosion_callback_def Let_def list_all_splice1)
  next
    case False
    with adv radius_ok_advance [OF ok] have "radius_ok e" by simp
    with adv False assms(1) show ?thesis
      by (simp add: explosion_callback_def Let_def list_all_update)
  qed
qed

lemma radius_ok_update_entities:
  assumes "list_all radius_ok (explosions st)"
  shows "list_all radius_ok (explosions (update_entities rng deltaTime st))"
proof -
  let ?P = "\<lambda>s. list_all radius_ok (explosions s)"
  let ?s1 = "spawn_rockets rng (score st) deltaTime st"
  let ?s2 = "update_rockets rng ?s1"
  let ?s3 = "update_interceptors rng ?s2"
  from assms have "?P ?s1" by simp
  then have "?P ?s2"
    unfolding update_rockets_def
    by (intro forEach_invariant [where P = ?P]) (simp_all add: radius_ok_rocket_callback)
  then have "?P ?s3"
    unfolding update_interceptors_def
    by (intro forEach_invariant [where P = ?P]) (simp_all add: radius_ok_interceptor_callback)
  then have "?P (update_explosions ?s3)"
    unfolding update_explosions_def
    by (intro forEach_invariant [where P = ?P]) (simp_all add: radius_ok_explosion_callback)
  then show ?thesis
    by (simp add: update_entities_def)
qed

lemma explosions_check [simp]: "explosions (check_win_loss sc st) = explosions st"
  by (simp add: check_win_loss_def Let_def)

lemma radius_ok_update:
  "list_all radius_ok (explosions st) \<Longrightarrow>
   list_all radius_ok (explosions (update rng deltaTime st))"
  by (simp add: update_def radius_ok_update_entities)

lemma explosions_fire [simp]: "explosions (fireInterceptor rng tX tY st) = explosions st"
  by (simp add: fireInterceptor_def Math_random_def Let_def split: option.split)

lemma radius_ok_run:
  "list_all radius_ok (explosions st) \<Longrightarrow>
   list_all radius_ok (explosions (foldl (handle rng) st evs))"
proof (induction evs arbitrary: st)
  case Nil
  then show ?case by simp
next
  case (Cons ev evs)
  have "list_all radius_ok (explosions (handle rng st ev))"
    using Cons.prems by (cases ev) (simp_all add: radius_ok_update resetGame_def)
  from Cons.IH [OF this] show ?case by simp
qed

text \<open>
  C3 (as amended). After any run (resets, fire requests and passes, in any order) from
  the first render or from a reset, every explosion in the registry satisfies \<open>radius_ok\<close>, which a
  pass preserves: its radius is a finite number that is not negative,
  at most \<open>maxRadius\<close> = 40 for the explosion of a rocket's impact, and at most 51 for
  the explosion of an interceptor, whose \<open>maxRadius\<close> is 50. A contracting explosion
  never expands again, and an expanding explosion stops expanding in the step that
  takes its radius to 40 (impact, the \<open>maxRadius\<close>) or to 51 (interceptor, above the
  \<open>maxRadius\<close>).
\<close>

theorem C3_explosion_radius_bounds:
  "list_all radius_ok (explosions (foldl (handle rng) initial_game evs)) \<and>
   list_all radius_ok (explosions (foldl (handle rng) (resetGame st) evs)) \<and>
   (list_all radius_ok (explosions st) \<longrightarrow>
      list_all radius_ok (explosions (update rng deltaTime st))) \<and>
   (radius_ok e \<longrightarrow>
      (\<exists>r. radius e = Num r \<and> 0 \<le> r \<and>
         (maxRadius e = Num 40 \<and> growthRate e = Num 2 \<and> r \<le> 40 \<or>
          maxRadius e = Num 50 \<and> growthRate e = Num 1.5 \<and> r \<le> 51))) \<and>
   (\<not> isExpanding e \<longrightarrow> \<not> isExpanding (fst (explosion_advance e))) \<and>
   (radius_ok e \<and> isExpanding e \<and> \<not> isExpanding (fst (explosion_advance e)) \<longrightarrow>
      radius (fst (explosion_advance e)) = (if maxRadius e = Num 40 then Num 40 else Num 51))"
proof (intro conjI impI)
  show "list_all radius_ok (explosions (foldl (handle rng) initial_game evs))"
    by (rule radius_ok_run) (simp add: initial_game_def)
  show "list_all radius_ok (explosions (foldl (handle rng) (resetGame st) evs))"
    by (rule radius_ok_run) (simp add: resetGame_def)
  show "list_all radius_ok (explosions (update rng deltaTime st))"
    if "list_all radius_ok (explosions st)"
    using that by (rule radius_ok_update)
  show "\<exists>r. radius e = Num r \<and> 0 \<le> r \<and>
         (maxRadius e = Num 40 \<and> growthRate e = Num 2 \<and> r \<le> 40 \<or>
          maxRadius e = Num 50 \<and> growthRate e = Num 1.5 \<and> r \<le> 51)"
    if "radius_ok e"
    using that by (auto simp: radius_ok_def split: number.splits)
  show "\<not> isExpanding (fst (explosion_advance e))" if "\<not> isExpanding e"
    using that by (simp add: explosion_advance_def Let_def)
  show "radius (fst (explosion_advance e)) = (if maxRadius e = Num 40 then Num 40 else Num 51)"
    if h: "radius_ok e \<and> isExpanding e \<and> \<not> isExpanding (fst (explosion_advance e))"
  proof -
    from h obtain r where r: "radius e = Num r"
      by (auto simp: radius_ok_def split: number.splits)
    from h r consider
      (impact) "maxRadius e = Num 40" "growthRate e = Num 2" "r < 40" "frac (r / 2) = 0"
      | (inter) "maxRadius e = Num 50" "growthRate e = Num 1.5" "r < 50" "frac (r / 1.5) = 0"
      by (auto simp: radius_ok_def)
    then show ?thesis
    proof cases
      case impact
      from multiple_bound [OF impact(4) _ impact(3)] have "r + 2 \<le> 40" by simp
      with h r impact show ?thesis
        by (auto simp: explosion_advance_def Let_def nge_def split: if_splits)
    next
      case inter
      have "frac ((51::real) / 1.5) = 0" by (simp add: frac_eq_0_iff)
      from multiple_bound [OF inter(4) _ _ this] inter(3) have le: "r + 1.5 \<le> 51" by simp
      from h r inter have flip: "50 \<le> r + 1.5"
        by (auto simp: explosion_advance_def Let_def nge_def split: if_splits)
      have "frac ((49.5::real) / 1.5) = 0" by (simp add: frac_eq_0_iff)
      moreover from frac_step [OF inter(4)] have "frac ((r + 1.5) / 1.5) = 0" by simp
      ultimately have "49.5 + 1.5 \<le> r + 1.5"
        using flip by (intro multiple_bound) simp_all
      with le have "r + 1.5 = 51" by simp
      with h r inter show ?thesis
        by (simp add: explosion_advance_def Let_def nge_def)
    qed
  qed
qed



theorem C3_witness:
  "list_all radius_ok (explosions st_peak) \<and>
   list_all radius_ok (explosions (update rng0 (Num 16) st_peak)) \<and>
   radius_ok expl_38 \<and> isExpanding expl_38 \<and>
   \<not> isExpanding (fst (explosion_advance expl_38)) \<and>
   radius (fst (explosion_advance expl_38)) = Num 40 \<and>
   \<not> isExpanding (fst (explosion_advance (fst (explosion_advance expl_38))))"
proof -
  have h1: "list_all radius_ok (explosions st_peak)"
    by (simp add: st_peak_def expl_50_def radius_ok_def frac_eq_0_iff)
  have h2: "radius_ok expl_38"
    by (simp add: expl_38_def radius_ok_def frac_eq_0_iff)
  have h3: "isExpanding expl_38" "\<not> isExpanding (fst (explosion_advance expl_38))"
    by (simp_all add: expl_38_def explosion_advance_def Let_def nge_def)
  have m: "maxRadius expl_38 = Num 40"
    by (simp add: expl_38_def)
  from C3_explosion_radius_bounds [where st = st_peak and rng = rng0
        and deltaTime = "Num 16" and e = expl_38]
    C3_explosion_radius_bounds [where st = st_peak and rng = rng0
        and deltaTime = "Num 16" and e = "fst (explosion_advance expl_38)"] h1 h2 h3 m
  show ?thesis
    by simp
qed


text \<open>
  The claim C3 as stated fails for the explosion of an interceptor: 33 steps take its
  radius from 0 to 49.5, and the next pass takes it to 51, above its \<open>maxRadius\<close> of 50;
  that is the step in which it stops expanding.
\<close>

lemma expl_50_expanding:
  "n \<le> 33 \<Longrightarrow> ((fst \<circ> explosion_advance) ^^ n) expl_50 = expl_50\<lparr>radius := Num (1.5 * real n)\<rparr>"
proof (induction n)
  case 0
  then show ?case by (simp add: expl_50_def)
next
  case (Suc n)
  then have "1.5 * real n + 1.5 < 50" by simp
  with Suc show ?case
    by (simp add: expl_50_def explosion_advance_def Let_def nge_def algebra_simps)
qed

theorem C3_counterexample:
  "((fst \<circ> explosion_advance) ^^ 33) expl_50 = expl_50\<lparr>radius := Num 49.5\<rparr> \<and>
   explosions (update rng0 (Num 16) st_peak) = [expl_50\<lparr>radius := Num 51, isExpanding := False\<rparr>] \<and>
   maxRadius (expl_50\<lparr>radius := Num 51, isExpanding := False\<rparr>) = Num 50 \<and>
   \<not> nle (Num 51) (Num 50)"
proof -
  have "((fst \<circ> explosion_advance) ^^ 33) expl_50 = expl_50\<lparr>radius := Num 49.5\<rparr>"
    using expl_50_expanding [of 33] by simp
  moreover have "explosions (update rng0 (Num 16) st_peak) =
      [expl_50\<lparr>radius := Num 51, isExpanding := False\<rparr>]"
    by (simp add: expl_50_def st_peak_def resetGame_def initial_game_def pass_defs
          number_defs const_defs)
  ultimately show ?thesis
    by (simp add: expl_50_def)
qed


subsection \<open>Splicing inside \<open>forEach\<close>\<close>

lemmas survivors_defs = update_survivors_def survivors_rockets_def survivors_rocket_def
  survivors_interceptors_def survivors_interceptor_def survivors_explosions_def
  survivors_explosion_def in_blast_def

text \<open>
  C4. The pass of the source and the pass that collects survivors differ. On
  \<open>st_two_rockets\<close> the first rocket arrives and is spliced out, which moves the
  second rocket to index 0; \<open>forEach\<close> goes on with index 1, where nothing is left, so
  the source does not move the second rocket in this pass, and the pass that collects
  survivors moves it. On \<open>st_two_in_blast\<close> both rockets are inside the explosion; the
  source splices the first out, never tests the second, and awards one kill, and the
  pass that collects survivors removes both and awards two.
\<close>

theorem C4_splice_skips_next_element:
  "rockets (update rng0 (Num 16) st_two_rockets) =
     [\<lparr>id = RandomId (3/4), x = Num 600.5, y = Num 5.7, targetX = Num 650,
       targetY = Num 570, speed = Num 1, progress = Num 0.01\<rparr>] \<and>
   rockets (update_survivors rng0 (Num 16) st_two_rockets) =
     [\<lparr>id = RandomId (3/4), x = Num 601, y = Num 11.4, targetX = Num 650,
       targetY = Num 570, speed = Num 1, progress = Num 0.02\<rparr>] \<and>
   update rng0 (Num 16) st_two_rockets \<noteq> update_survivors rng0 (Num 16) st_two_rockets \<and>
   length (rockets (update rng0 (Num 16) st_two_in_blast)) = 1 \<and>
   score (update rng0 (Num 16) st_two_in_blast) = 20 \<and>
   length (rockets (update_survivors rng0 (Num 16) st_two_in_blast)) = 0 \<and>
   score (update_survivors rng0 (Num 16) st_two_in_blast) = 40"
proof -
  have a: "rockets (update rng0 (Num 16) st_two_rockets) =
     [\<lparr>id = RandomId (3/4), x = Num 600.5, y = Num 5.7, targetX = Num 650,
       targetY = Num 570, speed = Num 1, progress = Num 0.01\<rparr>]"
    by (simp add: st_two_rockets_def resetGame_def initial_game_def pass_defs number_defs
          const_defs rng0_def sqrt_eval)
  have b: "rockets (update_survivors rng0 (Num 16) st_two_rockets) =
     [\<lparr>id = RandomId (3/4), x = Num 601, y = Num 11.4, targetX = Num 650,
       targetY = Num 570, speed = Num 1, progress = Num 0.02\<rparr>]"
    by (simp add: st_two_rockets_def resetGame_def initial_game_def pass_defs survivors_defs
          number_defs const_defs rng0_def sqrt_eval)
  have "rockets (update rng0 (Num 16) st_two_rockets) \<noteq>
      rockets (update_survivors rng0 (Num 16) st_two_rockets)"
    unfolding a b by simp
  then have c: "update rng0 (Num 16) st_two_rockets \<noteq>
      update_survivors rng0 (Num 16) st_two_rockets"
    by auto
  have d: "length (rockets (update rng0 (Num 16) st_two_in_blast)) = 1"
    "score (update rng0 (Num 16) st_two_in_blast) = 20"
    by (simp_all add: st_two_in_blast_def resetGame_def initial_game_def pass_defs number_defs
          const_defs rng0_def sqrt_eval)
  have e: "length (rockets (update_survivors rng0 (Num 16) st_two_in_blast)) = 0"
    "score (update_survivors rng0 (Num 16) st_two_in_blast) = 40"
    by (simp_all add: st_two_in_blast_def resetGame_def initial_game_def pass_defs
          survivors_defs number_defs const_defs rng0_def sqrt_eval)
  from a b c d e show ?thesis
    by simp
qed

subsection \<open>The arithmetic without rounding\<close>

lemma fadd_exact [simp]: "fadd Num a b = nadd a b"
  by (cases a; cases b) simp_all

lemma fsub_exact [simp]: "fsub Num a b = nsub a b"
  by (simp add: fsub_def nsub_def)

lemma fmul_exact [simp]: "fmul Num a b = nmul a b"
  by (cases a; cases b) simp_all

lemma fdiv_exact [simp]: "fdiv Num a b = ndiv a b"
  by (cases a; cases b) simp_all

lemma fsqrt_exact [simp]: "fsqrt Num a = Math_sqrt a"
  by (cases a) simp_all





lemma scan_tower_exact: "scan_tower tX tY = scan_tower_with (tower_dist tX tY)"
  by (intro ext) (simp add: scan_tower_def scan_tower_with_def)

lemma find_best_exact: "find_best tX tY ts = find_best_with (tower_dist tX tY) ts"
  by (simp add: find_best_def find_best_with_def scan_tower_exact)

lemma fireInterceptor_exact:
  "fireInterceptor rng tX tY st = fireInterceptor_with tower_dist rng tX tY st"
  by (simp add: fireInterceptor_def fireInterceptor_with_def find_best_exact)




subsection \<open>The calls of a callback and the rest of the loop\<close>


subsection \<open>The tower that fires\<close>

lemma nlt_trans: "nlt a b \<Longrightarrow> nlt b c \<Longrightarrow> nlt a c"
  by (cases a; cases b; cases c) simp_all

lemma nle_nlt_trans: "nle a b \<Longrightarrow> nlt b c \<Longrightarrow> nlt a c"
  by (cases a; cases b; cases c) simp_all

lemma nlt_irrefl [simp]: "\<not> nlt a a"
  by (cases a) simp_all

lemma nlt_below_PosInf: "nlt a b \<Longrightarrow> nlt a PosInf"
  by (cases a; cases b) simp_all

lemma not_below_PosInf: "\<not> nlt a PosInf \<Longrightarrow> nlt b PosInf \<Longrightarrow> \<not> nlt a b \<and> \<not> nle a b"
  by (cases a; cases b) simp_all

lemma find_best_with_snoc:
  "find_best_with d (ts @ [t]) = scan_tower_with d (find_best_with d ts) (length ts, t)"
  by (simp add: find_best_with_def enumerate_append_eq)

lemma least_so_far_find_best: "least_so_far d ts (find_best_with d ts)"
proof (induction ts rule: rev_induct)
  case Nil
  then show ?case by (simp add: least_so_far_def find_best_with_def)
next
  case (snoc t ts)
  let ?acc = "find_best_with d ts"
  note IH = snoc.IH
  show ?case
  proof (cases "eligible t")
    case False
    then have "scan_tower_with d ?acc (length ts, t) = ?acc"
      by (auto simp: scan_tower_with_def eligible_def)
    with IH False show ?thesis
      by (auto simp: find_best_with_snoc least_so_far_def nth_append less_Suc_eq
               split: option.splits)
  next
    case True
    show ?thesis
    proof (cases "nlt (d t) (snd ?acc)")
      case lt: True
      then have new: "scan_tower_with d ?acc (length ts, t) = (Some (length ts), d t)"
        using True by (simp add: scan_tower_with_def eligible_def)
      have below: "nlt (d t) PosInf"
        using lt by (rule nlt_below_PosInf)
      have "\<not> nlt (d (ts ! k)) (d t) \<and> \<not> nle (d (ts ! k)) (d t)"
        if k: "k < length ts" "eligible (ts ! k)" for k
      proof (cases "fst ?acc")
        case None
        with IH k have "\<not> nlt (d (ts ! k)) PosInf"
          by (simp add: least_so_far_def)
        then show ?thesis using below by (rule not_below_PosInf)
      next
        case (Some i)
        with IH k have m: "snd ?acc = d (ts ! i)" and "\<not> nlt (d (ts ! k)) (d (ts ! i))"
          by (auto simp: least_so_far_def)
        with lt show ?thesis
          by (metis nlt_trans nle_nlt_trans)
      qed
      with True below show ?thesis
        by (auto simp: find_best_with_snoc new least_so_far_def nth_append less_Suc_eq)
    next
      case ge: False
      then have old: "scan_tower_with d ?acc (length ts, t) = ?acc"
        using True by (simp add: scan_tower_with_def eligible_def)
      show ?thesis
      proof (cases "fst ?acc")
        case None
        with IH ge have "\<not> nlt (d t) PosInf"
          by (simp add: least_so_far_def)
        with IH None show ?thesis
          by (auto simp: find_best_with_snoc old least_so_far_def nth_append less_Suc_eq)
      next
        case (Some i)
        with IH ge have "\<not> nlt (d t) (d (ts ! i))"
          by (auto simp: least_so_far_def)
        with IH Some show ?thesis
          by (auto simp: find_best_with_snoc old least_so_far_def nth_append less_Suc_eq)
      qed
    qed
  qed
qed


lemma fire_with_Some:
  assumes "gameState st = PLAYING" and "fst (find_best_with (dist_of tX tY) (towers st)) = Some i"
  shows "fireInterceptor_with dist_of rng tX tY st =
     st\<lparr>towers := (towers st)[i := (towers st ! i)\<lparr>ammo := ammo (towers st ! i) - 1\<rparr>],
        randoms := Suc (randoms st),
        interceptors := interceptors st @
          [\<lparr>id = RandomId (frac (rng (randoms st))), x = x (towers st ! i),
            y = y (towers st ! i), targetX = tX, targetY = tY, speed = Num 10,
            progress = Num 0, startX = x (towers st ! i), startY = y (towers st ! i)\<rparr>]\<rparr>"
  using assms by (simp add: fireInterceptor_with_def Math_random_def Let_def)

lemma fire_with_None:
  "fst (find_best_with (dist_of tX tY) (towers st)) = None \<Longrightarrow>
   fireInterceptor_with dist_of rng tX tY st = st"
  by (simp add: fireInterceptor_with_def)

lemmas fire_defs = fireInterceptor_def find_best_def scan_tower_def tower_dist_def

text \<open>
  C5 (as amended). A call of \<open>fireInterceptor\<close> in state \<open>PLAYING\<close>, whatever the
  target and whatever number \<open>dist_of\<close> the code computes as the distance of a tower.
  If some eligible tower (not destroyed, \<open>ammo > 0\<close>) has a computed distance below
  \<open>Infinity\<close>, a tower fires (its ammo is decremented and the new interceptor starts at
  its position): it is eligible, no eligible tower has a smaller computed distance, and
  no eligible tower before it in the array has a smaller or equal one. So a nearer
  tower that is destroyed or out of ammo is passed over, and of the eligible towers
  whose computed distances are least and equal (towers at the same distance, or at
  distances that round to the same double) the first one fires. Otherwise (a target
  that is \<open>NaN\<close> or infinite, an overflow) no tower fires and the state stays as it
  was. Without rounding the computed distance of a tower with finite coordinates from
  a finite target is the Euclidean distance.
\<close>

theorem C5_first_least_computed_distance_fires:
  assumes "gameState st = PLAYING"
  shows
   "(if \<exists>k<length (towers st). eligible (towers st ! k) \<and>
          nlt (dist_of tX tY (towers st ! k)) PosInf
     then \<exists>i<length (towers st).
            eligible (towers st ! i) \<and> nlt (dist_of tX tY (towers st ! i)) PosInf \<and>
            (\<forall>k<length (towers st). eligible (towers st ! k) \<longrightarrow>
               \<not> nlt (dist_of tX tY (towers st ! k)) (dist_of tX tY (towers st ! i))) \<and>
            (\<forall>k<i. eligible (towers st ! k) \<longrightarrow>
               \<not> nle (dist_of tX tY (towers st ! k)) (dist_of tX tY (towers st ! i))) \<and>
            towers (fireInterceptor_with dist_of rng tX tY st) =
              (towers st)[i := (towers st ! i)\<lparr>ammo := ammo (towers st ! i) - 1\<rparr>] \<and>
            startX (last (interceptors (fireInterceptor_with dist_of rng tX tY st)))
              = x (towers st ! i) \<and>
            startY (last (interceptors (fireInterceptor_with dist_of rng tX tY st)))
              = y (towers st ! i)
     else fireInterceptor_with dist_of rng tX tY st = st) \<and>
    fireInterceptor rng tX tY st = fireInterceptor_with tower_dist rng tX tY st \<and>
    (\<forall>t a b c e. x t = Num a \<and> y t = Num b \<longrightarrow>
       tower_dist (Num c) (Num e) t = Num (sqrt ((a - c)\<^sup>2 + (b - e)\<^sup>2)))"
proof (intro conjI)
  let ?ts = "towers st" and ?d = "dist_of tX tY"
  note inv = least_so_far_find_best [of ?d ?ts]
  show "if \<exists>k<length ?ts. eligible (?ts ! k) \<and> nlt (?d (?ts ! k)) PosInf
     then \<exists>i<length ?ts.
            eligible (?ts ! i) \<and> nlt (?d (?ts ! i)) PosInf \<and>
            (\<forall>k<length ?ts. eligible (?ts ! k) \<longrightarrow> \<not> nlt (?d (?ts ! k)) (?d (?ts ! i))) \<and>
            (\<forall>k<i. eligible (?ts ! k) \<longrightarrow> \<not> nle (?d (?ts ! k)) (?d (?ts ! i))) \<and>
            towers (fireInterceptor_with dist_of rng tX tY st) =
              ?ts[i := (?ts ! i)\<lparr>ammo := ammo (?ts ! i) - 1\<rparr>] \<and>
            startX (last (interceptors (fireInterceptor_with dist_of rng tX tY st)))
              = x (?ts ! i) \<and>
            startY (last (interceptors (fireInterceptor_with dist_of rng tX tY st)))
              = y (?ts ! i)
     else fireInterceptor_with dist_of rng tX tY st = st"
  proof (cases "fst (find_best_with ?d ?ts)")
    case None
    with inv have "\<forall>k<length ?ts. eligible (?ts ! k) \<longrightarrow> \<not> nlt (?d (?ts ! k)) PosInf"
      by (simp add: least_so_far_def)
    moreover from None have "fireInterceptor_with dist_of rng tX tY st = st"
      by (rule fire_with_None)
    ultimately show ?thesis by auto
  next
    case (Some i)
    with inv have props: "i < length ?ts" "eligible (?ts ! i)" "nlt (?d (?ts ! i)) PosInf"
      "\<forall>k<length ?ts. eligible (?ts ! k) \<longrightarrow> \<not> nlt (?d (?ts ! k)) (?d (?ts ! i))"
      "\<forall>k<i. eligible (?ts ! k) \<longrightarrow> \<not> nle (?d (?ts ! k)) (?d (?ts ! i))"
      by (auto simp: least_so_far_def)
    note f = fire_with_Some [where dist_of = dist_of and tX = tX and tY = tY and rng = rng,
        OF assms Some]
    have fire: "towers (fireInterceptor_with dist_of rng tX tY st) =
              ?ts[i := (?ts ! i)\<lparr>ammo := ammo (?ts ! i) - 1\<rparr>]"
      "startX (last (interceptors (fireInterceptor_with dist_of rng tX tY st))) = x (?ts ! i)"
      "startY (last (interceptors (fireInterceptor_with dist_of rng tX tY st))) = y (?ts ! i)"
      by (simp_all add: f)
    from props fire show ?thesis
      by (auto intro!: exI [of _ i])
  qed
next
  show "fireInterceptor rng tX tY st = fireInterceptor_with tower_dist rng tX tY st"
    by (rule fireInterceptor_exact)
next
  show "\<forall>t a b c e. x t = Num a \<and> y t = Num b \<longrightarrow>
       tower_dist (Num c) (Num e) t = Num (sqrt ((a - c)\<^sup>2 + (b - e)\<^sup>2))"
    by (simp add: tower_dist_def nsub_def not_less)
qed

theorem C5_witness:
  "gameState st_tie = PLAYING \<and>
   map eligible (towers st_tie) = [True, False, True] \<and>
   tower_dist (Num 400) (Num 300) (towers st_tie ! 0) = Num (sqrt 190100) \<and>
   tower_dist (Num 400) (Num 300) (towers st_tie ! 1) = Num 260 \<and>
   tower_dist (Num 400) (Num 300) (towers st_tie ! 2) = Num (sqrt 190100) \<and>
   (\<exists>k<length (towers st_tie). eligible (towers st_tie ! k) \<and>
      nlt (tower_dist (Num 400) (Num 300) (towers st_tie ! k)) PosInf) \<and>
   (\<exists>i<length (towers st_tie).
      eligible (towers st_tie ! i) \<and>
      nlt (tower_dist (Num 400) (Num 300) (towers st_tie ! i)) PosInf \<and>
      (\<forall>k<length (towers st_tie). eligible (towers st_tie ! k) \<longrightarrow>
         \<not> nlt (tower_dist (Num 400) (Num 300) (towers st_tie ! k))
                (tower_dist (Num 400) (Num 300) (towers st_tie ! i))) \<and>
      (\<forall>k<i. eligible (towers st_tie ! k) \<longrightarrow>
         \<not> nle (tower_dist (Num 400) (Num 300) (towers st_tie ! k))
                (tower_dist (Num 400) (Num 300) (towers st_tie ! i))) \<and>
      towers (fireInterceptor_with tower_dist rng0 (Num 400) (Num 300) st_tie) =
        (towers st_tie)[i := (towers st_tie ! i)\<lparr>ammo := ammo (towers st_tie ! i) - 1\<rparr>] \<and>
      startX (last (interceptors (fireInterceptor_with tower_dist rng0 (Num 400) (Num 300) st_tie)))
        = x (towers st_tie ! i) \<and>
      startY (last (interceptors (fireInterceptor_with tower_dist rng0 (Num 400) (Num 300) st_tie)))
        = y (towers st_tie ! i)) \<and>
   map ammo (towers (fireInterceptor rng0 (Num 400) (Num 300) st_tie)) = [39, 80, 40]"
proof -
  have ts: "towers st_tie =
    [\<lparr>id = Name ''tower-0'', x = Num 50, y = Num 560, isDestroyed = False,
      ammo = 40, maxAmmo = 40\<rparr>,
     \<lparr>id = Name ''tower-1'', x = Num 400, y = Num 560, isDestroyed = True,
      ammo = 80, maxAmmo = 80\<rparr>,
     \<lparr>id = Name ''tower-2'', x = Num 750, y = Num 560, isDestroyed = False,
      ammo = 40, maxAmmo = 40\<rparr>]"
    by (simp add: st_tie_def const_defs)
  have h1: "gameState st_tie = PLAYING"
    by (simp add: st_tie_def resetGame_def)
  have el: "map eligible (towers st_tie) = [True, False, True]"
    by (simp add: ts eligible_def)
  have d: "tower_dist (Num 400) (Num 300) (towers st_tie ! 0) = Num (sqrt 190100)"
    "tower_dist (Num 400) (Num 300) (towers st_tie ! 1) = Num 260"
    "tower_dist (Num 400) (Num 300) (towers st_tie ! 2) = Num (sqrt 190100)"
    by (simp_all add: ts tower_dist_def nsub_def)
  have ex: "\<exists>k<length (towers st_tie). eligible (towers st_tie ! k) \<and>
      nlt (tower_dist (Num 400) (Num 300) (towers st_tie ! k)) PosInf"
    by (rule exI [of _ 0]) (simp add: ts eligible_def tower_dist_def nsub_def)
  from C5_first_least_computed_distance_fires [OF h1, where dist_of = tower_dist and tX = "Num 400" and tY = "Num 300"
      and rng = rng0] ex
  have fired: "\<exists>i<length (towers st_tie).
      eligible (towers st_tie ! i) \<and>
      nlt (tower_dist (Num 400) (Num 300) (towers st_tie ! i)) PosInf \<and>
      (\<forall>k<length (towers st_tie). eligible (towers st_tie ! k) \<longrightarrow>
         \<not> nlt (tower_dist (Num 400) (Num 300) (towers st_tie ! k))
                (tower_dist (Num 400) (Num 300) (towers st_tie ! i))) \<and>
      (\<forall>k<i. eligible (towers st_tie ! k) \<longrightarrow>
         \<not> nle (tower_dist (Num 400) (Num 300) (towers st_tie ! k))
                (tower_dist (Num 400) (Num 300) (towers st_tie ! i))) \<and>
      towers (fireInterceptor_with tower_dist rng0 (Num 400) (Num 300) st_tie) =
        (towers st_tie)[i := (towers st_tie ! i)\<lparr>ammo := ammo (towers st_tie ! i) - 1\<rparr>] \<and>
      startX (last (interceptors (fireInterceptor_with tower_dist rng0 (Num 400) (Num 300) st_tie)))
        = x (towers st_tie ! i) \<and>
      startY (last (interceptors (fireInterceptor_with tower_dist rng0 (Num 400) (Num 300) st_tie)))
        = y (towers st_tie ! i)"
    by (simp only: if_True)
  have am: "map ammo (towers (fireInterceptor rng0 (Num 400) (Num 300) st_tie)) = [39, 80, 40]"
    by (simp add: st_tie_def resetGame_def initial_game_def const_defs fire_defs nsub_def
          Math_random_def Let_def)
  show ?thesis
    by (intro conjI h1 el d ex fired am)
qed

text \<open>
  The claim C5 as stated fails: with all three towers eligible, a call whose target
  abscissa is \<open>Infinity\<close> or \<open>NaN\<close> fires no tower.
\<close>

theorem C5_counterexample:
  "gameState (resetGame initial_game) = PLAYING \<and>
   map eligible (towers (resetGame initial_game)) = [True, True, True] \<and>
   fireInterceptor rng0 PosInf (Num 300) (resetGame initial_game) = resetGame initial_game \<and>
   fireInterceptor rng0 NaN (Num 300) (resetGame initial_game) = resetGame initial_game"
  by (simp add: resetGame_def initial_game_def const_defs fire_defs nsub_def eligible_def
        Math_random_def Let_def)

subsection \<open>A rocket's arrival\<close>


lemma rocket_advance_fl_target [simp]:
  "targetX (rocket_advance_fl fl r) = targetX r" "targetY (rocket_advance_fl fl r) = targetY r"
  by (simp_all add: rocket_advance_fl_def Let_def)











lemma cities_interceptor_callback [simp]:
  "cities (interceptor_callback rng k st) = cities st"
  by (simp add: interceptor_callback_def Math_random_def Let_def)

lemma cities_collide [simp]: "cities (collide expl k st) = cities st"
  by (simp add: collide_def Let_def)

lemma cities_explosion_callback [simp]: "cities (explosion_callback k st) = cities st"
proof -
  have "cities (forEach (\<lambda>s. length (rockets s)) (collide expl) s0) = cities s0" for expl s0
    by (rule forEach_invariant [where P = "\<lambda>s. cities s = cities s0"]) simp_all
  then show ?thesis
    by (simp add: explosion_callback_def Let_def split: prod.split)
qed

lemma cities_check [simp]: "cities (check_win_loss sc st) = cities st"
  by (simp add: check_win_loss_def Let_def)





subsection \<open>The progress of an interceptor\<close>





lemma interceptors_spawn_rockets [simp]:
  "interceptors (spawn_rockets rng sc deltaTime st) = interceptors st"
  by (simp add: spawn_rockets_def Math_random_def Let_def)

lemma interceptors_rocket_callback [simp]:
  "interceptors (rocket_callback rng k st) = interceptors st"
  by (simp add: rocket_callback_def Math_random_def Let_def)

lemma interceptors_collide [simp]: "interceptors (collide expl k st) = interceptors st"
  by (simp add: collide_def Let_def)

lemma interceptors_explosion_callback [simp]:
  "interceptors (explosion_callback k st) = interceptors st"
proof -
  have "interceptors (forEach (\<lambda>s. length (rockets s)) (collide expl) s0) = interceptors s0"
    for expl s0
    by (rule forEach_invariant [where P = "\<lambda>s. interceptors s = interceptors s0"]) simp_all
  then show ?thesis
    by (simp add: explosion_callback_def Let_def split: prod.split)
qed

lemma interceptors_check [simp]: "interceptors (check_win_loss sc st) = interceptors st"
  by (simp add: check_win_loss_def Let_def)





end
